theory Spec2Isabelle
  imports Complex_Main "HOL-Library.Word"
begin

unbundle bit_operations_syntax

section \<open>Values, errors and sequencing\<close>

text \<open>
  The two modules \<^verbatim>\<open>pythonGlyphs.py\<close> and \<^verbatim>\<open>htlcSwaps.py\<close> each define a class
  \<^verbatim>\<open>GlyphProtocol\<close>; the second repeats the codec of the first and adds the HTLC swap
  operations. Every \<^verbatim>\<open>def\<close> that takes \<^verbatim>\<open>self\<close> is read as a method of that class. A
  name that a module uses and neither defines nor imports is unbound in it, and
  evaluating it raises \<^verbatim>\<open>NameError\<close>: \<^verbatim>\<open>OP_RETURN\<close>, \<^verbatim>\<open>OP_13\<close> and \<^verbatim>\<open>bitcointx\<close> in
  \<^verbatim>\<open>htlcSwaps.py\<close>. A call of a method that the class does not have raises
  \<^verbatim>\<open>AttributeError\<close>: \<^verbatim>\<open>get_input_amount\<close> in \<^verbatim>\<open>htlcSwaps.py\<close>. The methods of
  \<^verbatim>\<open>htlcSwaps.py\<close> are those of an object that has its \<^verbatim>\<open>proxy\<close>; the constructor of that
  module, which calls the unimported \<^verbatim>\<open>select_chain_params\<close>, is not part of them.

  Python \<^verbatim>\<open>bytes\<close> are lists of 8-bit words, Python \<^verbatim>\<open>int\<close> is \<open>int\<close>. Glyph names and
  currency symbols are \<^verbatim>\<open>str\<close> values that contain code points above U+00FF (the spacer
  is U+2022), so they are lists of code points; addresses, transaction ids and hex
  strings are \<open>string\<close>. An exception is a value \<open>Inl e\<close> of the result.
\<close>

type_synonym byte = "8 word"
type_synonym bytes = "byte list"
type_synonym pystr = "nat list"

datatype error =
  ValueError | TypeError | KeyError | UnicodeEncodeError | JSONRPCError | AddressError
  | NameError | AttributeError | IndexError | UnicodeDecodeError

definition and_then :: "error + 'a \<Rightarrow> ('a \<Rightarrow> error + 'b) \<Rightarrow> error + 'b" where
  "and_then r f = (case r of Inl e \<Rightarrow> Inl e | Inr x \<Rightarrow> f x)"

definition ascii :: "string \<Rightarrow> bytes" where
  "ascii s = map of_char s"

definition codepoints :: "string \<Rightarrow> pystr" where
  "codepoints s = map of_char s"

text \<open>Truthiness of an optional integer and of an optional string, as \<^verbatim>\<open>if x:\<close> tests it.\<close>

definition truthy :: "int option \<Rightarrow> bool" where
  "truthy v = (case v of None \<Rightarrow> False | Some x \<Rightarrow> x \<noteq> 0)"

definition truthy_str :: "string option \<Rightarrow> bool" where
  "truthy_str v = (case v of None \<Rightarrow> False | Some s \<Rightarrow> s \<noteq> [])"

section \<open>Constants\<close>

definition COIN :: int where "COIN = 100000000"
definition MAX_GLYPH_NAME_LENGTH :: nat where "MAX_GLYPH_NAME_LENGTH = 26"
definition BASE_OFFSET :: int where "BASE_OFFSET = 1"

definition spacer :: nat where "spacer = 0x2022"
definition ord_A :: int where "ord_A = 65"
definition alphabet :: pystr where "alphabet = codepoints ''ABCDEFGHIJKLMNOPQRSTUVWXYZ''"

definition OP_0 :: byte where "OP_0 = 0x00"
definition OP_1 :: byte where "OP_1 = 0x51"
definition OP_13 :: byte where "OP_13 = 0x5d"
definition OP_IF :: byte where "OP_IF = 0x63"
definition OP_ELSE :: byte where "OP_ELSE = 0x67"
definition OP_ENDIF :: byte where "OP_ENDIF = 0x68"
definition OP_RETURN :: byte where "OP_RETURN = 0x6a"
definition OP_DROP :: byte where "OP_DROP = 0x75"
definition OP_DUP :: byte where "OP_DUP = 0x76"
definition OP_EQUALVERIFY :: byte where "OP_EQUALVERIFY = 0x88"
definition OP_HASH160 :: byte where "OP_HASH160 = 0xa9"
definition OP_CHECKSIG :: byte where "OP_CHECKSIG = 0xac"
definition OP_CHECKLOCKTIMEVERIFY :: byte where "OP_CHECKLOCKTIMEVERIFY = 0xb1"

section \<open>Character classes\<close>

text \<open>
  \<^verbatim>\<open>str.isalpha\<close> and \<^verbatim>\<open>str.isupper\<close> consult the Unicode character database of the
  interpreter. Below U+0100 the two classes are written out: the letters are A-Z, a-z,
  U+00AA, U+00B5, U+00BA, U+00C0-U+00D6, U+00D8-U+00F6 and U+00F8-U+00FF; the uppercase
  characters are A-Z, U+00C0-U+00D6 and U+00D8-U+00DE. The spacer U+2022 is punctuation,
  in neither class. For every other code point the database is a parameter.
\<close>

record ucd =
  ucd_alpha :: "nat \<Rightarrow> bool"
  ucd_upper :: "nat \<Rightarrow> bool"

definition isalpha :: "ucd \<Rightarrow> nat \<Rightarrow> bool" where
  "isalpha db c =
     (if c < 0x100
      then (0x41 \<le> c \<and> c \<le> 0x5A) \<or> (0x61 \<le> c \<and> c \<le> 0x7A)
           \<or> c = 0xAA \<or> c = 0xB5 \<or> c = 0xBA
           \<or> (0xC0 \<le> c \<and> c \<le> 0xD6) \<or> (0xD8 \<le> c \<and> c \<le> 0xF6) \<or> 0xF8 \<le> c
      else if c = spacer then False
      else ucd_alpha db c)"

definition isupper :: "ucd \<Rightarrow> nat \<Rightarrow> bool" where
  "isupper db c =
     (if c < 0x100
      then (0x41 \<le> c \<and> c \<le> 0x5A) \<or> (0xC0 \<le> c \<and> c \<le> 0xD6) \<or> (0xD8 \<le> c \<and> c \<le> 0xDE)
      else if c = spacer then False
      else ucd_upper db c)"

section \<open>Glyph names: validation and the symbol codec\<close>

text \<open>
  \<^verbatim>\<open>is_valid_glyph_name\<close>: the loop \<^verbatim>\<open>for i, char in enumerate(name)\<close> runs over the
  pairs of \<open>enumerate 0 name\<close>; \<open>name\<close> itself stays at hand for the two neighbour reads,
  which the short-circuit \<^verbatim>\<open>or\<close> reaches only for \<open>0 < i < len(name) - 1\<close>.
\<close>

fun valid_name_loop :: "ucd \<Rightarrow> pystr \<Rightarrow> (nat \<times> nat) list \<Rightarrow> nat \<Rightarrow> bool" where
  "valid_name_loop db name [] letter_count =
     (letter_count > 0 \<and> letter_count \<le> MAX_GLYPH_NAME_LENGTH)"
| "valid_name_loop db name ((i, char) # rest) letter_count =
     (if isalpha db char \<and> isupper db char
      then valid_name_loop db name rest (letter_count + 1)
      else if char = spacer
      then (if i = 0 \<or> i = length name - 1 \<or> name ! (i - 1) = spacer \<or> name ! (i + 1) = spacer
            then False
            else valid_name_loop db name rest letter_count)
      else False)"

definition is_valid_glyph_name :: "ucd \<Rightarrow> pystr \<Rightarrow> bool" where
  "is_valid_glyph_name db name =
     (if name = [] \<or> length name > MAX_GLYPH_NAME_LENGTH then False
      else valid_name_loop db name (enumerate 0 name) 0)"

definition symbol_to_int :: "ucd \<Rightarrow> pystr \<Rightarrow> error + int" where
  "symbol_to_int db symbol =
     (if \<not> is_valid_glyph_name db symbol then Inl ValueError
      else
        let clean_symbol = filter (\<lambda>c. c \<noteq> spacer) symbol
        in Inr (foldl (\<lambda>value (i, c). value + (int c - ord_A + BASE_OFFSET) * 26 ^ i)
                  0 (enumerate 0 (rev clean_symbol))))"

function int_to_symbol_loop :: "int \<Rightarrow> pystr \<Rightarrow> pystr" where
  "int_to_symbol_loop num symbol =
     (if num > 0
      then int_to_symbol_loop ((num - BASE_OFFSET) div 26)
             (alphabet ! nat ((num - BASE_OFFSET) mod 26) # symbol)
      else symbol)"
  by pat_completeness auto
termination
  by (relation "measure (\<lambda>(num, symbol). nat num)") (auto simp: BASE_OFFSET_def)

declare int_to_symbol_loop.simps [simp del]

definition int_to_symbol :: "int \<Rightarrow> error + pystr" where
  "int_to_symbol num =
     (if num < 0 then Inl ValueError
      else if BASE_OFFSET = 1 \<and> num = 0 then Inl ValueError
      else if BASE_OFFSET = 0 \<and> num = 0 then Inr [alphabet ! 0]
      else Inr (int_to_symbol_loop num []))"

section \<open>Varint codec\<close>

function encode_varint_loop :: "int \<Rightarrow> bytes \<Rightarrow> bytes" where
  "encode_varint_loop i encoded =
     (if i > 127
      then encode_varint_loop (drop_bit 7 i)
             (encoded @ [word_of_int ((i AND 0x7F) OR 0x80)])
      else encoded @ [word_of_int i])"
  by pat_completeness auto
termination
  by (relation "measure (\<lambda>(i, encoded). nat i)") (auto simp: drop_bit_eq_div)

declare encode_varint_loop.simps [simp del]

definition encode_varint :: "int \<Rightarrow> error + bytes" where
  "encode_varint i = (if i < 0 then Inl ValueError else Inr (encode_varint_loop i []))"

text \<open>
  \<^verbatim>\<open>decode_varint\<close> has no \<^verbatim>\<open>raise\<close> and returns the one integer \<^verbatim>\<open>decoded\<close>: the loop
  ends at the first byte whose bit 7 is clear, or with the stream.
\<close>

fun decode_varint_loop :: "bytes \<Rightarrow> int \<Rightarrow> nat \<Rightarrow> int" where
  "decode_varint_loop [] decoded shift = decoded"
| "decode_varint_loop (b # bs) decoded shift =
     (let decoded' = decoded OR push_bit shift (uint (b AND 0x7F))
      in if b AND 0x80 = 0 then decoded'
         else decode_varint_loop bs decoded' (shift + 7))"

definition decode_varint :: "bytes \<Rightarrow> int" where
  "decode_varint encoded = decode_varint_loop encoded 0 0"

text \<open>
  What the loop of \<^verbatim>\<open>decode_varint\<close> reads: \<open>varint_head\<close> is the prefix up to and
  including the first byte with a clear continuation bit (the whole stream when there
  is none). \<open>varint_fields\<close> cuts a stream into such groups and decodes each one: the
  fields of a glyphstone payload.
\<close>

fun varint_head :: "bytes \<Rightarrow> bytes" where
  "varint_head [] = []"
| "varint_head (b # bs) = (if b AND 0x80 = 0 then [b] else b # varint_head bs)"



text \<open>
  The decoder of section 4.1 of the specification, in its words: it returns the value
  with the rest of the stream, fails with \<open>Truncated\<close> when the stream ends before a
  byte with a clear continuation bit, and with \<open>Overflow\<close> when the shift has passed 63
  and another byte is to be read.
\<close>

datatype codec_error = Truncated | Overflow

fun decode_spec_loop :: "bytes \<Rightarrow> int \<Rightarrow> nat \<Rightarrow> codec_error + (int \<times> bytes)" where
  "decode_spec_loop [] value shift = Inl Truncated"
| "decode_spec_loop (b # bs) value shift =
     (if shift > 63 then Inl Overflow
      else
        let value' = value + uint (b AND 0x7F) * 2 ^ shift
        in if b AND 0x80 = 0 then Inr (value', bs)
           else decode_spec_loop bs value' (shift + 7))"

definition decode_spec :: "bytes \<Rightarrow> codec_error + (int \<times> bytes)" where
  "decode_spec encoded = decode_spec_loop encoded 0 0"

section \<open>UTF-8 and scripts\<close>

text \<open>
  \<^verbatim>\<open>str.encode('utf-8')\<close>: one to four bytes per code point; a surrogate cannot be
  encoded.
\<close>

definition utf8_char :: "nat \<Rightarrow> error + bytes" where
  "utf8_char c =
     (if c < 0x80 then Inr [of_nat c]
      else if c < 0x800 then Inr [of_nat (0xC0 + c div 0x40), of_nat (0x80 + c mod 0x40)]
      else if 0xD800 \<le> c \<and> c \<le> 0xDFFF then Inl UnicodeEncodeError
      else if c < 0x10000
      then Inr [of_nat (0xE0 + c div 0x1000), of_nat (0x80 + c div 0x40 mod 0x40),
                of_nat (0x80 + c mod 0x40)]
      else if c < 0x110000
      then Inr [of_nat (0xF0 + c div 0x40000), of_nat (0x80 + c div 0x1000 mod 0x40),
                of_nat (0x80 + c div 0x40 mod 0x40), of_nat (0x80 + c mod 0x40)]
      else Inl UnicodeEncodeError)"

fun utf8_encode :: "pystr \<Rightarrow> error + bytes" where
  "utf8_encode [] = Inr []"
| "utf8_encode (c # cs) =
     and_then (utf8_char c) (\<lambda>b. and_then (utf8_encode cs) (\<lambda>bs. Inr (b @ bs)))"

text \<open>
  A \<^verbatim>\<open>CScript\<close> is a byte string, built from a list whose items are opcodes (one byte
  each) or data (a push of the data: the push opcode, the length, the bytes). The
  source reads a script with \<^verbatim>\<open>len\<close> and by byte index, so scripts are \<open>bytes\<close> here.
\<close>

datatype script_item = Op byte | Data bytes

definition encode_op_pushdata :: "bytes \<Rightarrow> error + bytes" where
  "encode_op_pushdata d =
     (let n = length d in
      if n < 0x4c then Inr (of_nat n # d)
      else if n \<le> 0xff then Inr (0x4c # of_nat n # d)
      else if n \<le> 0xffff then Inr (0x4d # of_nat (n mod 0x100) # of_nat (n div 0x100) # d)
      else if n \<le> 0xffffffff
      then Inr (0x4e # of_nat (n mod 0x100) # of_nat (n div 0x100 mod 0x100)
                  # of_nat (n div 0x10000 mod 0x100) # of_nat (n div 0x1000000) # d)
      else Inl ValueError)"

fun CScript :: "script_item list \<Rightarrow> error + bytes" where
  "CScript [] = Inr []"
| "CScript (Op b # items) = and_then (CScript items) (\<lambda>rest. Inr (b # rest))"
| "CScript (Data d # items) =
     and_then (encode_op_pushdata d) (\<lambda>push. and_then (CScript items) (\<lambda>rest. Inr (push @ rest)))"

section \<open>Transactions and the node\<close>

text \<open>
  The value of an output is an \<^verbatim>\<open>int\<close>: \<^verbatim>\<open>CTxOut\<close> accepts nothing else. An amount that
  the node reports is a number of bitcoins, a float, which the code compares with
  \<^verbatim>\<open>0.0001\<close> and multiplies by \<^verbatim>\<open>COIN\<close>; it is a rational here, the arithmetic on it taken
  as exact. A \<^verbatim>\<open>CTransaction\<close> cannot be changed once built: its \<^verbatim>\<open>vout\<close> is a tuple, and
  an assignment to one of its attributes raises \<^verbatim>\<open>AttributeError\<close>.
\<close>

record txout =
  nValue :: int
  scriptPubKey :: bytes

record txin =
  prevout_hash :: bytes
  prevout_n :: int

record tx =
  vin :: "txin list"
  vout :: "txout list"

record utxo =
  utxo_txid :: bytes
  utxo_vout :: int
  utxo_amount :: rat
  utxo_address :: string

text \<open>
  The values that the code handles without a fixed type: what \<^verbatim>\<open>decode_varint\<close> returns
  and its callers unpack, and the input value of a transaction, a float when it comes
  from the wallet and an \<^verbatim>\<open>int\<close> when it is read from a given input.
\<close>

datatype pyval = PyInt int | PyFloat rat | PyBytes bytes | PyTuple "pyval list"

text \<open>
  \<^verbatim>\<open>a, b = v\<close>: a tuple or a byte string of two items is taken apart; one of another
  length raises \<^verbatim>\<open>ValueError\<close>; a number is not iterable and raises \<^verbatim>\<open>TypeError\<close>.
\<close>

fun unpack2 :: "pyval \<Rightarrow> error + (pyval \<times> pyval)" where
  "unpack2 (PyTuple [a, b]) = Inr (a, b)"
| "unpack2 (PyTuple xs) = Inl ValueError"
| "unpack2 (PyBytes [a, b]) = Inr (PyInt (uint a), PyInt (uint b))"
| "unpack2 (PyBytes bs) = Inl ValueError"
| "unpack2 (PyInt v) = Inl TypeError"
| "unpack2 (PyFloat v) = Inl TypeError"

text \<open>
  \<^verbatim>\<open>x, data = self.decode_varint(data)\<close>, as \<^verbatim>\<open>decode_glyphstone\<close> and
  \<^verbatim>\<open>decode_glyph_balance\<close> write it: the right-hand side is the \<^verbatim>\<open>int\<close> that
  \<^verbatim>\<open>decode_varint\<close> returns; the statements that follow use \<open>x\<close> as an integer and
  \<open>data\<close> as bytes.
\<close>

definition unpack_decoded :: "int \<Rightarrow> error + (int \<times> bytes)" where
  "unpack_decoded decoded =
     and_then (unpack2 (PyInt decoded))
       (\<lambda>(x, data).
          case x of
            PyInt v \<Rightarrow> (case data of PyBytes d \<Rightarrow> Inr (v, d) | _ \<Rightarrow> Inl TypeError)
          | _ \<Rightarrow> Inl TypeError)"

text \<open>\<^verbatim>\<open>CTxOut(value, script)\<close> for a value that is not known to be an \<^verbatim>\<open>int\<close>.\<close>

definition new_CTxOut :: "pyval \<Rightarrow> bytes \<Rightarrow> error + txout" where
  "new_CTxOut v script =
     (case v of PyInt n \<Rightarrow> Inr \<lparr>nValue = n, scriptPubKey = script\<rparr> | _ \<Rightarrow> Inl TypeError)"

definition num_minus_int :: "pyval \<Rightarrow> int \<Rightarrow> pyval" where
  "num_minus_int v k =
     (case v of PyInt a \<Rightarrow> PyInt (a - k) | PyFloat a \<Rightarrow> PyFloat (a - of_int k) | _ \<Rightarrow> v)"

definition num_positive :: "pyval \<Rightarrow> bool" where
  "num_positive v = (case v of PyInt a \<Rightarrow> a > 0 | PyFloat a \<Rightarrow> a > 0 | _ \<Rightarrow> False)"

text \<open>\<^verbatim>\<open>xs[i]\<close> on a list or tuple: a negative index counts from the end.\<close>

definition py_index :: "'a list \<Rightarrow> int \<Rightarrow> error + 'a" where
  "py_index xs i =
     (if 0 \<le> i \<and> i < int (length xs) then Inr (xs ! nat i)
      else if i < 0 \<and> - int (length xs) \<le> i then Inr (xs ! nat (int (length xs) + i))
      else Inl IndexError)"

definition hex_digit :: "nat \<Rightarrow> char" where
  "hex_digit n = ''0123456789abcdef'' ! n"

definition hex_of_bytes :: "bytes \<Rightarrow> string" where
  "hex_of_bytes bs = concat (map (\<lambda>b. [hex_digit (unat b div 16), hex_digit (unat b mod 16)]) bs)"

text \<open>
  \<^verbatim>\<open>glyph_info\<close> is a dictionary; the keys that the code reads are the fields, \<open>None\<close>
  for a key that is absent. \<^verbatim>\<open>divisibility\<close> is a decoded varint.
\<close>

record glyph_info =
  gi_etch_height :: "int option"
  gi_minted_count :: "int option"
  gi_divisibility :: "nat option"
  gi_mint_cap :: "int option"
  gi_mint_amount :: "int option"
  gi_start_height :: "int option"
  gi_end_height :: "int option"
  gi_start_offset :: "int option"
  gi_end_offset :: "int option"

record htlc_details =
  hd_secret_hash :: "string option"
  hd_receiver_pubkey :: "string option"
  hd_timelock :: "int option"

text \<open>
  What the node says of an output in its verbose answers, the \<^verbatim>\<open>scriptPubKey\<close>
  dictionary with its keys \<^verbatim>\<open>type\<close> and \<^verbatim>\<open>asm\<close>, and of a transaction, the list \<^verbatim>\<open>vout\<close> of
  these.
\<close>

record script_info =
  spk_type :: string
  spk_asm :: string

record raw_transaction =
  raw_vout :: "script_info list"

text \<open>
  Everything outside the two modules is a field of the environment: the interpreter's
  \<^verbatim>\<open>int\<close>, \<^verbatim>\<open>str\<close>, \<^verbatim>\<open>str.split\<close> and \<^verbatim>\<open>bytes.fromhex\<close>, the answers of the node to the RPC
  calls, the address and key libraries, the serialiser.
\<close>

record env =
  unicode :: ucd
  py_int :: "string \<Rightarrow> int option"
  py_str :: "int \<Rightarrow> string"
  str_split :: "string \<Rightarrow> string list"
  fromhex :: "string \<Rightarrow> error + bytes"
  sha256 :: "bytes \<Rightarrow> bytes"
  listunspent :: "error + utxo list"
  getblockcount :: "error + int"
  getblockhash :: "int \<Rightarrow> error + string"
  getblock :: "string \<Rightarrow> error + raw_transaction list"
  getrawtransaction :: "string \<Rightarrow> error + tx"
  getrawtransaction_verbose :: "string \<Rightarrow> error + raw_transaction"
  gettxout :: "string \<Rightarrow> int \<Rightarrow> error + unit"
  getnewaddress :: "error + string"
  getaddressinfo_pubkey :: "string \<Rightarrow> error + string"
  CCoinAddress :: "string \<Rightarrow> error + bytes"
  P2TR_from_scriptPubKey :: "bytes \<Rightarrow> error + bytes"
  PublicKey_from_hex :: "string \<Rightarrow> error + bytes"
  serialize_len :: "tx \<Rightarrow> nat"
  sign_and_send :: "tx \<Rightarrow> error + string"

text \<open>\<^verbatim>\<open>except bitcointx.rpc.JSONRPCError: raise ValueError(...)\<close> around a block.\<close>

definition rpc_error_as_ValueError :: "error + 'a \<Rightarrow> error + 'a" where
  "rpc_error_as_ValueError r =
     (case r of Inl err \<Rightarrow> if err = JSONRPCError then Inl ValueError else Inl err
              | Inr x \<Rightarrow> Inr x)"

definition select_utxo :: "env \<Rightarrow> rat \<Rightarrow> error + utxo" where
  "select_utxo e amount_needed_btc =
     rpc_error_as_ValueError
       (and_then (listunspent e) (\<lambda>available_utxos.
          case find (\<lambda>u. utxo_amount u \<ge> amount_needed_btc) available_utxos of
            None \<Rightarrow> Inl ValueError
          | Some u \<Rightarrow> and_then (CCoinAddress e (utxo_address u)) (\<lambda>a. Inr u)))"

text \<open>
  \<^verbatim>\<open>select_utxo\<close> of \<^verbatim>\<open>htlcSwaps.py\<close>: the same block, but the module binds no name
  \<^verbatim>\<open>bitcointx\<close>, so that matching an exception of the block against the \<^verbatim>\<open>except\<close> clause
  raises \<^verbatim>\<open>NameError\<close>.
\<close>

definition htlc_select_utxo :: "env \<Rightarrow> rat \<Rightarrow> error + utxo" where
  "htlc_select_utxo e amount_needed_btc =
     (case and_then (listunspent e) (\<lambda>available_utxos.
             case find (\<lambda>u. utxo_amount u \<ge> amount_needed_btc) available_utxos of
               None \<Rightarrow> Inl ValueError
             | Some u \<Rightarrow> and_then (CCoinAddress e (utxo_address u)) (\<lambda>a. Inr u)) of
        Inl err \<Rightarrow> Inl NameError
      | Inr u \<Rightarrow> Inr u)"

definition get_input_amount :: "env \<Rightarrow> txin \<Rightarrow> error + int" where
  "get_input_amount e txin =
     (let txid = hex_of_bytes (prevout_hash txin)
      in and_then (getrawtransaction e txid) (\<lambda>transaction.
         and_then (py_index (vout transaction) (prevout_n txin)) (\<lambda>output.
         Inr (nValue output))))"

definition create_glyphstone_output :: "bytes \<Rightarrow> error + txout" where
  "create_glyphstone_output glyphstone_data =
     and_then (CScript [Op OP_RETURN, Op OP_13, Data glyphstone_data])
       (\<lambda>script. Inr \<lparr>nValue = 0, scriptPubKey = script\<rparr>)"

definition is_cenotaph :: "txout \<Rightarrow> bool" where
  "is_cenotaph glyphstone_output =
     (let script = scriptPubKey glyphstone_output
      in length script < 2 \<or> script ! 0 \<noteq> OP_RETURN \<or> script ! 1 \<noteq> OP_13)"

text \<open>
  \<^verbatim>\<open>is_cenotaph\<close> of \<^verbatim>\<open>htlcSwaps.py\<close>, which imports neither \<^verbatim>\<open>OP_RETURN\<close> nor \<^verbatim>\<open>OP_13\<close>:
  the first disjunct decides alone for a script of fewer than two bytes, and the second
  evaluates the unbound name.
\<close>

definition htlc_is_cenotaph :: "txout \<Rightarrow> error + bool" where
  "htlc_is_cenotaph glyphstone_output =
     (let script = scriptPubKey glyphstone_output
      in if length script < 2 then Inr True else Inl NameError)"

definition burn_output :: "error + txout" where
  "burn_output = and_then (CScript [Op OP_RETURN]) (\<lambda>script. Inr \<lparr>nValue = 0, scriptPubKey = script\<rparr>)"

section \<open>Reading a glyph from the chain\<close>

text \<open>
  \<^verbatim>\<open>block_height, tx_index = map(int, glyph_id.split(':'))\<close>: every failure, of \<^verbatim>\<open>int\<close>
  or of the unpacking into two names, is a \<^verbatim>\<open>ValueError\<close>.
\<close>

fun split_colon :: "string \<Rightarrow> string \<Rightarrow> string list" where
  "split_colon [] cur = [cur]"
| "split_colon (c # cs) cur =
     (if c = CHR '':'' then cur # split_colon cs [] else split_colon cs (cur @ [c]))"

definition parse_glyph_id :: "env \<Rightarrow> string \<Rightarrow> error + (int \<times> int)" where
  "parse_glyph_id e glyph_id =
     (case map (py_int e) (split_colon glyph_id []) of
        [Some block_height, Some tx_index] \<Rightarrow> Inr (block_height, tx_index)
      | _ \<Rightarrow> Inl ValueError)"

definition decode_glyph_balance :: "env \<Rightarrow> bytes \<Rightarrow> string \<Rightarrow> error + int" where
  "decode_glyph_balance e glyphstone_data glyph_id =
     (case glyphstone_data of
        [] \<Rightarrow> Inl IndexError
      | tag # data \<Rightarrow>
          if tag \<noteq> of_char CHR ''T'' then Inl ValueError
          else
            and_then (unpack_decoded (decode_varint data)) (\<lambda>(block_height, data).
            and_then (unpack_decoded (decode_varint data)) (\<lambda>(tx_index, data).
            if py_str e block_height @ '':'' @ py_str e tx_index \<noteq> glyph_id
            then Inl ValueError
            else and_then (unpack_decoded (decode_varint data)) (\<lambda>(balance, rest).
                 Inr balance))))"

definition get_glyph_balance :: "env \<Rightarrow> string \<Rightarrow> int \<Rightarrow> string \<Rightarrow> error + int" where
  "get_glyph_balance e txid vout_index glyph_id =
     rpc_error_as_ValueError
       (and_then (getrawtransaction_verbose e txid) (\<lambda>raw_tx.
        if vout_index \<ge> int (length (raw_vout raw_tx)) then Inl ValueError
        else
          and_then (py_index (raw_vout raw_tx) vout_index) (\<lambda>spk.
          and_then (rpc_error_as_ValueError (gettxout e txid vout_index)) (\<lambda>unspent.
          if spk_type spk \<noteq> ''nulldata'' then Inl ValueError
          else
            let asm_parts = str_split e (spk_asm spk)
            in if length asm_parts < 3 \<or> asm_parts ! 1 \<noteq> ''OP_13'' then Inl ValueError
               else and_then (fromhex e (asm_parts ! 2)) (\<lambda>glyphstone_data.
                    decode_glyph_balance e glyphstone_data glyph_id)))))"

text \<open>
  The loop of \<^verbatim>\<open>decode_glyphstone\<close> over the tagged fields. The keys \<^verbatim>\<open>name\<close> and \<^verbatim>\<open>symbol\<close>
  that the function also sets are read by no one and are not kept; what computing them
  can raise is.
\<close>

function decode_tagged_fields :: "glyph_info \<Rightarrow> bytes \<Rightarrow> error + glyph_info" where
  "decode_tagged_fields info data =
     (case data of
        [] \<Rightarrow> Inr info
      | tag # rest \<Rightarrow>
          if tag = of_char CHR ''C''
          then (case unpack_decoded (decode_varint rest) of
                  Inl err \<Rightarrow> Inl err
                | Inr (mint_cap, data') \<Rightarrow>
                    decode_tagged_fields (info\<lparr>gi_mint_cap := Some mint_cap\<rparr>) data')
          else if tag = of_char CHR ''A''
          then (case unpack_decoded (decode_varint rest) of
                  Inl err \<Rightarrow> Inl err
                | Inr (mint_amount, data') \<Rightarrow>
                    decode_tagged_fields (info\<lparr>gi_mint_amount := Some mint_amount\<rparr>) data')
          else if tag = of_char CHR ''S''
          then (case unpack_decoded (decode_varint rest) of
                  Inl err \<Rightarrow> Inl err
                | Inr (start_height, data') \<Rightarrow>
                    decode_tagged_fields (info\<lparr>gi_start_height := Some start_height\<rparr>) data')
          else if tag = of_char CHR ''H''
          then (case unpack_decoded (decode_varint rest) of
                  Inl err \<Rightarrow> Inl err
                | Inr (end_height, data') \<Rightarrow>
                    decode_tagged_fields (info\<lparr>gi_end_height := Some end_height\<rparr>) data')
          else if tag = of_char CHR ''O''
          then (case unpack_decoded (decode_varint rest) of
                  Inl err \<Rightarrow> Inl err
                | Inr (start_offset, data') \<Rightarrow>
                    decode_tagged_fields (info\<lparr>gi_start_offset := Some start_offset\<rparr>) data')
          else if tag = of_char CHR ''F''
          then (case unpack_decoded (decode_varint rest) of
                  Inl err \<Rightarrow> Inl err
                | Inr (end_offset, data') \<Rightarrow>
                    decode_tagged_fields (info\<lparr>gi_end_offset := Some end_offset\<rparr>) data')
          else Inr info)"
  by pat_completeness auto
termination
  by (relation "measure (\<lambda>(info, data). length data)")
     (auto simp: unpack_decoded_def and_then_def)

declare decode_tagged_fields.simps [simp del]

definition decode_glyphstone :: "bytes \<Rightarrow> int \<Rightarrow> error + glyph_info" where
  "decode_glyphstone glyphstone_data etch_height =
     (let info = \<lparr>gi_etch_height = Some etch_height, gi_minted_count = Some 0,
                  gi_divisibility = None, gi_mint_cap = None, gi_mint_amount = None,
                  gi_start_height = None, gi_end_height = None, gi_start_offset = None,
                  gi_end_offset = None\<rparr>
      in case glyphstone_data of
           [] \<Rightarrow> Inl IndexError
         | tag # data \<Rightarrow>
             if tag \<noteq> of_char CHR ''E'' then Inl ValueError
             else
               and_then (unpack_decoded (decode_varint data)) (\<lambda>(name_int, data).
               and_then (int_to_symbol name_int) (\<lambda>name.
               and_then (unpack_decoded (decode_varint data)) (\<lambda>(divisibility, data).
               let info = info\<lparr>gi_divisibility := Some (nat divisibility)\<rparr>
               in case data of
                    [] \<Rightarrow> decode_tagged_fields info data
                  | symbol # data \<Rightarrow>
                      if symbol AND 0x80 \<noteq> 0 then Inl UnicodeDecodeError
                      else decode_tagged_fields info data))))"

text \<open>
  The loop of \<^verbatim>\<open>get_glyph_info\<close> over the outputs of the etch transaction: it stops at
  the first data-carrier output with more than two words whose second word is
  \<^verbatim>\<open>OP_13\<close>.
\<close>

fun find_glyphstone :: "env \<Rightarrow> script_info list \<Rightarrow> error + bytes option" where
  "find_glyphstone e [] = Inr None"
| "find_glyphstone e (spk # outputs) =
     (if spk_type spk = ''nulldata'' \<and> length (str_split e (spk_asm spk)) > 2
      then
        let asm_parts = str_split e (spk_asm spk)
        in if asm_parts ! 1 = ''OP_13''
           then and_then (fromhex e (asm_parts ! 2)) (\<lambda>glyphstone_data. Inr (Some glyphstone_data))
           else find_glyphstone e outputs
      else find_glyphstone e outputs)"

definition get_glyph_info :: "env \<Rightarrow> string \<Rightarrow> error + glyph_info" where
  "get_glyph_info e glyph_id =
     and_then (parse_glyph_id e glyph_id) (\<lambda>(block_height, tx_index).
     and_then (getblockhash e block_height) (\<lambda>block_hash.
     and_then (getblock e block_hash) (\<lambda>block.
     if tx_index \<ge> int (length block) then Inl ValueError
     else
       and_then (py_index block tx_index) (\<lambda>transaction.
       and_then (find_glyphstone e (raw_vout transaction)) (\<lambda>glyphstone_data.
       case glyphstone_data of
         None \<Rightarrow> Inl ValueError
       | Some d \<Rightarrow> if d = [] then Inl ValueError else decode_glyphstone d block_height)))))"


section \<open>Validation of the mint window\<close>

definition is_mint_open :: "glyph_info \<Rightarrow> int \<Rightarrow> error + bool" where
  "is_mint_open info current_height =
     and_then
       (case gi_mint_cap info of
          None \<Rightarrow> Inr False
        | Some cap \<Rightarrow>
            if cap = 0 then Inr False
            else (case gi_minted_count info of
                    None \<Rightarrow> Inl TypeError
                  | Some minted \<Rightarrow> Inr (minted \<ge> cap)))
       (\<lambda>cap_reached.
          if cap_reached then Inr False
          else
            let etch_height = (case gi_etch_height info of None \<Rightarrow> 0 | Some h \<Rightarrow> h);
                start_height =
                  (if truthy (gi_start_height info) then the (gi_start_height info)
                   else if truthy (gi_start_offset info)
                   then etch_height + the (gi_start_offset info)
                   else 0);
                end_height =
                  (if truthy (gi_end_height info) then gi_end_height info
                   else if truthy (gi_end_offset info)
                   then Some (etch_height + the (gi_end_offset info))
                   else None)
            in Inr (start_height \<le> current_height
                    \<and> (case end_height of None \<Rightarrow> True | Some e \<Rightarrow> current_height < e)))"

text \<open>
  The predicate of section 3 of the specification, in its words: a bound is the
  absolute height when that field is set, else the etch height plus the offset when
  that field is set, else 0 and infinity (\<open>None\<close>); the cap applies when it is set.
\<close>

definition effective_start :: "glyph_info \<Rightarrow> int" where
  "effective_start info =
     (case gi_start_height info of
        Some s \<Rightarrow> s
      | None \<Rightarrow>
          (case gi_start_offset info of
             Some off \<Rightarrow> (case gi_etch_height info of None \<Rightarrow> 0 | Some h \<Rightarrow> h) + off
           | None \<Rightarrow> 0))"

definition effective_end :: "glyph_info \<Rightarrow> int option" where
  "effective_end info =
     (case gi_end_height info of
        Some s \<Rightarrow> Some s
      | None \<Rightarrow>
          (case gi_end_offset info of
             Some off \<Rightarrow> Some ((case gi_etch_height info of None \<Rightarrow> 0 | Some h \<Rightarrow> h) + off)
           | None \<Rightarrow> None))"

definition mint_open_spec :: "glyph_info \<Rightarrow> int \<Rightarrow> bool" where
  "mint_open_spec info h =
     (effective_start info \<le> h
      \<and> (case effective_end info of None \<Rightarrow> True | Some e \<Rightarrow> h < e)
      \<and> (case gi_mint_cap info of
           None \<Rightarrow> True
         | Some cap \<Rightarrow> (case gi_minted_count info of None \<Rightarrow> False | Some m \<Rightarrow> m < cap)))"

text \<open>The same record with every zero-valued term read as absent.\<close>

definition nonzero :: "int option \<Rightarrow> int option" where
  "nonzero v = (case v of None \<Rightarrow> None | Some x \<Rightarrow> if x = 0 then None else Some x)"

definition zero_as_unset :: "glyph_info \<Rightarrow> glyph_info" where
  "zero_as_unset info =
     info\<lparr>gi_mint_cap := nonzero (gi_mint_cap info),
          gi_start_height := nonzero (gi_start_height info),
          gi_end_height := nonzero (gi_end_height info),
          gi_start_offset := nonzero (gi_start_offset info),
          gi_end_offset := nonzero (gi_end_offset info)\<rparr>"

section \<open>The transaction builder\<close>

text \<open>
  \<^verbatim>\<open>_construct_and_broadcast_transaction\<close> of \<^verbatim>\<open>pythonGlyphs.py\<close>. The result is the
  transaction as it stands when it is signed and sent (\<^verbatim>\<open>live\<close>) or printed, with the
  transaction id when it was sent. The method builds \<^verbatim>\<open>tx = CTransaction([txin], outputs)\<close>
  and then changes it in two places: \<^verbatim>\<open>tx.vout.append(change_output)\<close> calls \<^verbatim>\<open>append\<close> on
  a tuple, and \<^verbatim>\<open>tx.vout = [burn_output]\<close> assigns to an attribute of an immutable
  object. Both raise \<^verbatim>\<open>AttributeError\<close>.
\<close>

definition construct_and_broadcast_transaction ::
  "env \<Rightarrow> txout \<Rightarrow> txout option \<Rightarrow> string option \<Rightarrow> int \<Rightarrow> bool \<Rightarrow> txin option
     \<Rightarrow> error + (tx \<times> string option)" where
  "construct_and_broadcast_transaction e glyphstone_output destination_output change_address
       fee_per_byte live input_txin =
     and_then
       (case input_txin of
          None \<Rightarrow>
            and_then (select_utxo e (1 / 10000))
              (\<lambda>u. Inr (\<lparr>prevout_hash = utxo_txid u, prevout_n = utxo_vout u\<rparr>,
                         PyFloat (utxo_amount u * of_int COIN)))
        | Some given \<Rightarrow> and_then (get_input_amount e given) (\<lambda>v. Inr (given, PyInt v)))
       (\<lambda>(txin, input_value).
          let outputs = [glyphstone_output]
                        @ (case destination_output of None \<Rightarrow> [] | Some d \<Rightarrow> [d]);
              tx = \<lparr>vin = [txin], vout = outputs\<rparr>;
              tx_size = serialize_len e tx;
              fee = int tx_size * fee_per_byte
          in and_then
               (if truthy_str change_address
                then
                  let change = num_minus_int
                                 (num_minus_int input_value
                                    (case destination_output of None \<Rightarrow> 0 | Some d \<Rightarrow> nValue d))
                                 fee
                  in if num_positive change
                     then and_then (CCoinAddress e (the change_address)) (\<lambda>spk.
                          and_then (new_CTxOut change spk) (\<lambda>change_output.
                          Inl AttributeError))
                     else Inr tx
                else Inr tx)
               (\<lambda>tx.
                  and_then
                    (if is_cenotaph glyphstone_output
                     then and_then burn_output (\<lambda>burn. Inl AttributeError)
                     else Inr tx)
                    (\<lambda>tx.
                       if live
                       then (case sign_and_send e tx of
                               Inl err \<Rightarrow> Inl ValueError
                             | Inr txid \<Rightarrow> Inr (tx, Some txid))
                       else Inr (tx, None))))"

text \<open>
  The method of the same name in \<^verbatim>\<open>htlcSwaps.py\<close>: no destination output, the change
  is the input value less the fee. The class of that module has no method
  \<^verbatim>\<open>get_input_amount\<close>, and the module binds neither \<^verbatim>\<open>OP_RETURN\<close> nor \<^verbatim>\<open>OP_13\<close>: the guard
  raises \<^verbatim>\<open>NameError\<close>, in \<^verbatim>\<open>is_cenotaph\<close> or, for a script of fewer than two bytes, where
  the burn output is built.
\<close>

definition htlc_construct_and_broadcast_transaction ::
  "env \<Rightarrow> txout \<Rightarrow> string option \<Rightarrow> int \<Rightarrow> bool \<Rightarrow> txin option
     \<Rightarrow> error + (tx \<times> string option)" where
  "htlc_construct_and_broadcast_transaction e glyphstone_output change_address
       fee_per_byte live input_txin =
     and_then
       (case input_txin of
          None \<Rightarrow>
            and_then (htlc_select_utxo e (1 / 10000))
              (\<lambda>u. Inr (\<lparr>prevout_hash = utxo_txid u, prevout_n = utxo_vout u\<rparr>,
                         PyFloat (utxo_amount u * of_int COIN)))
        | Some given \<Rightarrow> Inl AttributeError)
       (\<lambda>(txin, input_value).
          let outputs = [glyphstone_output];
              tx = \<lparr>vin = [txin], vout = outputs\<rparr>;
              tx_size = serialize_len e tx;
              fee = int tx_size * fee_per_byte
          in and_then
               (if truthy_str change_address
                then
                  let change = num_minus_int input_value fee
                  in if num_positive change
                     then and_then (CCoinAddress e (the change_address)) (\<lambda>spk.
                          and_then (new_CTxOut change spk) (\<lambda>change_output.
                          Inl AttributeError))
                     else Inr tx
                else Inr tx)
               (\<lambda>tx.
                  and_then
                    (and_then (htlc_is_cenotaph glyphstone_output) (\<lambda>malformed.
                       if malformed then Inl NameError else Inr tx))
                    (\<lambda>tx.
                       if live
                       then (case sign_and_send e tx of
                               Inl err \<Rightarrow> Inl ValueError
                             | Inr txid \<Rightarrow> Inr (tx, Some txid))
                       else Inr (tx, None))))"

section \<open>Destination outputs\<close>

definition create_taproot_address :: "env \<Rightarrow> string \<Rightarrow> string \<Rightarrow> error + bytes" where
  "create_taproot_address e bitcoin_address nostr_pubkey =
     and_then (CCoinAddress e bitcoin_address) (\<lambda>script_pubkey.
     and_then (fromhex e nostr_pubkey) (\<lambda>key.
     and_then (CScript [Op OP_1, Data key]) (\<lambda>nostr_leaf.
     and_then (CScript [Op OP_1, Data script_pubkey, Data nostr_leaf]) (\<lambda>taproot_script.
     P2TR_from_scriptPubKey e taproot_script))))"

text \<open>
  The expression that \<^verbatim>\<open>mint_glyph\<close>, \<^verbatim>\<open>transfer_glyph\<close> and
  \<^verbatim>\<open>_create_glyph_output\<close> each write out: the taproot address when a Nostr key is
  given, the plain address otherwise, then \<^verbatim>\<open>to_scriptPubKey()\<close>.
\<close>

definition destination_scriptPubKey :: "env \<Rightarrow> string \<Rightarrow> string option \<Rightarrow> error + bytes" where
  "destination_scriptPubKey e destination_address nostr_pubkey =
     (if truthy_str nostr_pubkey
      then create_taproot_address e destination_address (the nostr_pubkey)
      else CCoinAddress e destination_address)"

text \<open>
  \<^verbatim>\<open>_create_glyph_output\<close>. Its caller \<^verbatim>\<open>etch_glyph\<close> has encoded \<^verbatim>\<open>divisibility\<close> as a
  varint before the call, so the exponent is not negative here and
  \<^verbatim>\<open>int(amount * (10**divisibility))\<close> is the exact product.
\<close>

definition create_glyph_output ::
  "env \<Rightarrow> int \<Rightarrow> nat \<Rightarrow> string option \<Rightarrow> string option \<Rightarrow> error + txout option" where
  "create_glyph_output e amount divisibility destination_address nostr_pubkey =
     (if amount > 0
      then if \<not> truthy_str destination_address then Inl ValueError
           else and_then (destination_scriptPubKey e (the destination_address) nostr_pubkey)
                  (\<lambda>spk. let output_value = amount * 10 ^ divisibility
                         in Inr (Some \<lparr>nValue = output_value, scriptPubKey = spk\<rparr>))
      else Inr None)"

section \<open>Etch, mint and transfer\<close>

text \<open>One \<^verbatim>\<open>if field: data += tag + varint(field)\<close> statement of \<^verbatim>\<open>_add_optional_mint_params\<close>.\<close>

definition append_field :: "string \<Rightarrow> int option \<Rightarrow> bytes \<Rightarrow> error + bytes" where
  "append_field tag field glyphstone_data =
     (if truthy field
      then and_then (encode_varint (the field)) (\<lambda>v. Inr (glyphstone_data @ ascii tag @ v))
      else Inr glyphstone_data)"

definition add_optional_mint_params ::
  "bytes \<Rightarrow> pystr \<Rightarrow> int \<Rightarrow> int option \<Rightarrow> int option \<Rightarrow> int option \<Rightarrow> int option
     \<Rightarrow> int option \<Rightarrow> int option \<Rightarrow> error + bytes" where
  "add_optional_mint_params glyphstone_data symbol premine mint_cap mint_amount
       start_height end_height start_offset end_offset =
     and_then (if symbol \<noteq> []
               then and_then (utf8_encode symbol) (\<lambda>s. Inr (glyphstone_data @ s))
               else Inr glyphstone_data) (\<lambda>d1.
     and_then (if premine \<noteq> 0
               then and_then (encode_varint premine) (\<lambda>p. Inr (d1 @ p))
               else Inr d1) (\<lambda>d2.
     and_then (append_field ''C'' mint_cap d2) (\<lambda>d3.
     and_then (append_field ''A'' mint_amount d3) (\<lambda>d4.
     and_then (append_field ''S'' start_height d4) (\<lambda>d5.
     and_then (append_field ''H'' end_height d5) (\<lambda>d6.
     and_then (append_field ''O'' start_offset d6) (\<lambda>d7.
     append_field ''F'' end_offset d7)))))))"

text \<open>The glyphstone payload of \<^verbatim>\<open>etch_glyph\<close> (its first two statements).\<close>

definition etch_glyphstone_data ::
  "ucd \<Rightarrow> pystr \<Rightarrow> int \<Rightarrow> pystr \<Rightarrow> int \<Rightarrow> int option \<Rightarrow> int option \<Rightarrow> int option
     \<Rightarrow> int option \<Rightarrow> int option \<Rightarrow> int option \<Rightarrow> error + bytes" where
  "etch_glyphstone_data db name divisibility symbol premine mint_cap mint_amount
       start_height end_height start_offset end_offset =
     and_then (symbol_to_int db name) (\<lambda>name_int.
     and_then (encode_varint name_int) (\<lambda>n.
     and_then (encode_varint divisibility) (\<lambda>d.
     add_optional_mint_params (ascii ''E'' @ n @ d) symbol premine mint_cap mint_amount
       start_height end_height start_offset end_offset)))"

definition etch_glyph ::
  "env \<Rightarrow> pystr \<Rightarrow> int \<Rightarrow> pystr \<Rightarrow> int \<Rightarrow> int option \<Rightarrow> int option \<Rightarrow> int option
     \<Rightarrow> int option \<Rightarrow> int option \<Rightarrow> int option \<Rightarrow> string option \<Rightarrow> string option
     \<Rightarrow> int \<Rightarrow> bool \<Rightarrow> string option \<Rightarrow> error + (tx \<times> string option)" where
  "etch_glyph e name divisibility symbol premine mint_cap mint_amount start_height end_height
       start_offset end_offset destination_address change_address fee_per_byte live
       nostr_pubkey =
     and_then (etch_glyphstone_data (unicode e) name divisibility symbol premine mint_cap
                 mint_amount start_height end_height start_offset end_offset)
       (\<lambda>glyphstone_data.
     and_then (create_glyphstone_output glyphstone_data) (\<lambda>glyphstone_output.
     and_then (create_glyph_output e premine (nat divisibility) destination_address nostr_pubkey)
       (\<lambda>destination_output.
     construct_and_broadcast_transaction e glyphstone_output destination_output
       change_address fee_per_byte live None)))"

definition mint_glyph ::
  "env \<Rightarrow> string \<Rightarrow> int \<Rightarrow> string \<Rightarrow> string option \<Rightarrow> int \<Rightarrow> bool \<Rightarrow> string option
     \<Rightarrow> error + (tx \<times> string option)" where
  "mint_glyph e glyph_id amount destination_address change_address fee_per_byte live
       nostr_pubkey =
     and_then (get_glyph_info e glyph_id) (\<lambda>info.
     and_then (getblockcount e) (\<lambda>current_height.
     and_then (is_mint_open info current_height) (\<lambda>is_open.
     if \<not> is_open then Inl ValueError
     else (case gi_mint_amount info of
             None \<Rightarrow> Inl KeyError
           | Some mint_amount \<Rightarrow>
               if mint_amount \<noteq> 0 \<and> amount \<noteq> mint_amount then Inl ValueError
               else
                 and_then (parse_glyph_id e glyph_id) (\<lambda>(block_height, tx_index).
                 and_then (encode_varint block_height) (\<lambda>b.
                 and_then (encode_varint tx_index) (\<lambda>t.
                 and_then (encode_varint amount) (\<lambda>a.
                 and_then (create_glyphstone_output (ascii ''M'' @ b @ t @ a))
                   (\<lambda>glyphstone_output.
                 (case gi_divisibility info of
                    None \<Rightarrow> Inl KeyError
                  | Some divisibility \<Rightarrow>
                      let output_value = amount * 10 ^ divisibility
                      in and_then (destination_scriptPubKey e destination_address nostr_pubkey)
                           (\<lambda>spk.
                              construct_and_broadcast_transaction e glyphstone_output
                                (Some \<lparr>nValue = output_value, scriptPubKey = spk\<rparr>)
                                change_address fee_per_byte live None)))))))))))"

text \<open>
  The glyphstone payload of \<^verbatim>\<open>transfer_glyph\<close>: the expression that the method assigns
  to \<^verbatim>\<open>glyphstone_data\<close>, with the literal \<^verbatim>\<open>self.encode_varint(1)\<close> as its last part.
\<close>

definition transfer_glyphstone_data :: "int \<Rightarrow> int \<Rightarrow> int \<Rightarrow> error + bytes" where
  "transfer_glyphstone_data block_height tx_index amount =
     and_then (encode_varint block_height) (\<lambda>b.
     and_then (encode_varint tx_index) (\<lambda>t.
     and_then (encode_varint amount) (\<lambda>a.
     and_then (encode_varint 1) (\<lambda>output_index.
     Inr (ascii ''T'' @ b @ t @ a @ output_index)))))"

definition transfer_glyph ::
  "env \<Rightarrow> string \<Rightarrow> string \<Rightarrow> int \<Rightarrow> int \<Rightarrow> string \<Rightarrow> string option \<Rightarrow> int \<Rightarrow> bool
     \<Rightarrow> string option \<Rightarrow> error + (tx \<times> string option)" where
  "transfer_glyph e glyph_id input_txid input_vout amount destination_address change_address
       fee_per_byte live nostr_pubkey =
     and_then (parse_glyph_id e glyph_id) (\<lambda>(block_height, tx_index).
     and_then (get_glyph_balance e input_txid input_vout glyph_id) (\<lambda>input_glyphs.
     if input_glyphs < amount then Inl ValueError
     else
       and_then (transfer_glyphstone_data block_height tx_index amount) (\<lambda>glyphstone_data.
       and_then (create_glyphstone_output glyphstone_data) (\<lambda>glyphstone_output.
       and_then (fromhex e input_txid) (\<lambda>txid_bytes.
       let txin = \<lparr>prevout_hash = rev txid_bytes, prevout_n = input_vout\<rparr>
       in and_then
            (if take 9 destination_address = ''OP_RETURN''
             then burn_output
             else and_then (destination_scriptPubKey e destination_address nostr_pubkey)
                    (\<lambda>spk. Inr \<lparr>nValue = amount, scriptPubKey = spk\<rparr>))
            (\<lambda>destination_output.
               construct_and_broadcast_transaction e glyphstone_output
                 (Some destination_output) change_address fee_per_byte live (Some txin)))))))"

section \<open>HTLC swaps\<close>

definition create_htlc_script :: "bytes \<Rightarrow> bytes \<Rightarrow> bytes \<Rightarrow> int \<Rightarrow> error + bytes" where
  "create_htlc_script receiver_pubkey sender_pubkey secret_hash timelock =
     CScript [Op OP_DUP, Op OP_HASH160, Data secret_hash, Op OP_EQUALVERIFY, Op OP_CHECKSIG,
              Op OP_IF, Data receiver_pubkey, Op OP_ELSE, Op OP_CHECKLOCKTIMEVERIFY,
              Op OP_DROP, Data sender_pubkey, Op OP_ENDIF, Op OP_CHECKSIG]"

definition initiate_swap ::
  "env \<Rightarrow> string \<Rightarrow> int \<Rightarrow> string \<Rightarrow> string \<Rightarrow> pystr \<Rightarrow> int \<Rightarrow> error + (tx \<times> string option)" where
  "initiate_swap e glyph_id amount destination_address counterparty_pubkey secret timelock =
     and_then (utf8_encode secret) (\<lambda>secret_bytes.
     let secret_hash = sha256 e secret_bytes
     in and_then (PublicKey_from_hex e counterparty_pubkey) (\<lambda>receiver_pubkey.
        and_then (getaddressinfo_pubkey e destination_address) (\<lambda>own_key.
        and_then (PublicKey_from_hex e own_key) (\<lambda>sender_pubkey.
        and_then (create_htlc_script receiver_pubkey sender_pubkey secret_hash timelock)
          (\<lambda>htlc_script.
        and_then (getnewaddress e) (\<lambda>change_address.
        htlc_construct_and_broadcast_transaction e
          \<lparr>nValue = amount * 10 ^ 8, scriptPubKey = htlc_script\<rparr>
          (Some change_address) 1 True None))))))"

definition participate_in_swap ::
  "env \<Rightarrow> string \<Rightarrow> int \<Rightarrow> htlc_details \<Rightarrow> string \<Rightarrow> error + (tx \<times> string option)" where
  "participate_in_swap e glyph_id amount counterparty_htlc_details destination_address =
     (case hd_secret_hash counterparty_htlc_details of
        None \<Rightarrow> Inl KeyError
      | Some hash_hex \<Rightarrow>
     and_then (fromhex e hash_hex) (\<lambda>secret_hash.
     (case hd_receiver_pubkey counterparty_htlc_details of
        None \<Rightarrow> Inl KeyError
      | Some receiver_hex \<Rightarrow>
     and_then (PublicKey_from_hex e receiver_hex) (\<lambda>receiver_pubkey.
     and_then (getaddressinfo_pubkey e destination_address) (\<lambda>own_key.
     and_then (PublicKey_from_hex e own_key) (\<lambda>sender_pubkey.
     (case hd_timelock counterparty_htlc_details of
        None \<Rightarrow> Inl KeyError
      | Some timelock \<Rightarrow>
     and_then (create_htlc_script receiver_pubkey sender_pubkey secret_hash timelock)
       (\<lambda>htlc_script.
     and_then (getnewaddress e) (\<lambda>change_address.
     htlc_construct_and_broadcast_transaction e
       \<lparr>nValue = amount * 10 ^ 8, scriptPubKey = htlc_script\<rparr>
       (Some change_address) 1 True None)))))))))"

section \<open>Auxiliary functions of the statements\<close>

text \<open>
  The value of a name read from its last letter: the fold of \<^verbatim>\<open>symbol_to_int\<close> over
  \<^verbatim>\<open>enumerate(reversed(clean_symbol))\<close>, as a recursion.
\<close>

fun base26_value :: "pystr \<Rightarrow> int" where
  "base26_value [] = 0"
| "base26_value (c # cs) = (int c - ord_A + BASE_OFFSET) + 26 * base26_value cs"

text \<open>What one tagged field adds to an etch payload: nothing when absent or zero.\<close>

definition tagged :: "string \<Rightarrow> int option \<Rightarrow> bytes" where
  "tagged tag field =
     (case nonzero field of None \<Rightarrow> [] | Some v \<Rightarrow> ascii tag @ encode_varint_loop v [])"

definition nonneg :: "int option \<Rightarrow> bool" where
  "nonneg field = (case field of None \<Rightarrow> True | Some v \<Rightarrow> 0 \<le> v)"

section \<open>A concrete environment\<close>

text \<open>
  An environment on which the operations can be evaluated. The interpreter's functions
  are plain readers and printers of decimal and hexadecimal digits and a splitter at
  spaces. The wallet holds one output of half a bitcoin. Block 840000 holds eighteen
  transactions, each with one data-carrier output whose words are \<^verbatim>\<open>OP_RETURN\<close>,
  \<^verbatim>\<open>OP_13\<close> and the etch payload of TESTCOIN; every transaction that is looked up by its
  id has one data-carrier output with the transfer payload of 100 units of the glyph
  840000:17, unspent, of 10000 satoshis. The address library names the script of an
  address by the characters of the address, and the wallet's own key is the second of
  the two keys below.
\<close>

definition digit_val :: "char \<Rightarrow> nat option" where
  "digit_val c =
     (let n = of_char c in if 48 \<le> n \<and> n \<le> (57::nat) then Some (n - 48) else None)"

fun digits_val :: "string \<Rightarrow> nat \<Rightarrow> nat option" where
  "digits_val [] acc = Some acc"
| "digits_val (c # cs) acc =
     (case digit_val c of None \<Rightarrow> None | Some d \<Rightarrow> digits_val cs (10 * acc + d))"

definition decimal :: "string \<Rightarrow> int option" where
  "decimal s = (if s = [] then None else map_option int (digits_val s 0))"

function nat_digits :: "nat \<Rightarrow> string" where
  "nat_digits n =
     (if n < 10 then [hex_digit n] else nat_digits (n div 10) @ [hex_digit (n mod 10)])"
  by pat_completeness auto
termination
  by (relation "measure (\<lambda>n. n)") auto

declare nat_digits.simps [simp del]

definition decimal_str :: "int \<Rightarrow> string" where
  "decimal_str i = (if i < 0 then CHR ''-'' # nat_digits (nat (- i)) else nat_digits (nat i))"

fun split_spaces :: "string \<Rightarrow> string \<Rightarrow> string list" where
  "split_spaces [] cur = (if cur = [] then [] else [cur])"
| "split_spaces (c # cs) cur =
     (if c = CHR '' ''
      then (if cur = [] then split_spaces cs [] else cur # split_spaces cs [])
      else split_spaces cs (cur @ [c]))"

definition hex_val :: "char \<Rightarrow> nat option" where
  "hex_val c =
     (let n = of_char c in
      if 48 \<le> n \<and> n \<le> (57::nat) then Some (n - 48)
      else if 97 \<le> n \<and> n \<le> 102 then Some (n - 87)
      else if 65 \<le> n \<and> n \<le> 70 then Some (n - 55)
      else None)"

fun hex_pairs :: "string \<Rightarrow> error + bytes" where
  "hex_pairs [] = Inr []"
| "hex_pairs [c] = Inl ValueError"
| "hex_pairs (c # d # cs) =
     (case (hex_val c, hex_val d) of
        (Some h, Some l) \<Rightarrow> and_then (hex_pairs cs) (\<lambda>bs. Inr (of_nat (16 * h + l) # bs))
      | _ \<Rightarrow> Inl ValueError)"

definition latin1_only :: ucd where
  "latin1_only = \<lparr>ucd_alpha = (\<lambda>c. False), ucd_upper = (\<lambda>c. False)\<rparr>"

text \<open>
  Two compressed public keys, the hash of a secret, and the details of a counterparty's
  HTLC that names them.
\<close>

definition receiver_key :: bytes where
  "receiver_key =
     [0x02, 0xC6, 0x04, 0x7F, 0x94, 0x41, 0xED, 0x7D, 0x6D, 0x30, 0x45,
      0x40, 0x6E, 0x95, 0xC0, 0x7C, 0xD8, 0x5C, 0x77, 0x8E, 0x4B, 0x8C,
      0xEF, 0x3C, 0xA7, 0xAB, 0xAC, 0x09, 0xB9, 0x5C, 0x70, 0x9E, 0xE5]"

definition sender_key :: bytes where
  "sender_key =
     [0x02, 0x79, 0xBE, 0x66, 0x7E, 0xF9, 0xDC, 0xBB, 0xAC, 0x55, 0xA0,
      0x62, 0x95, 0xCE, 0x87, 0x0B, 0x07, 0x02, 0x9B, 0xFC, 0xDB, 0x2D,
      0xCE, 0x28, 0xD9, 0x59, 0xF2, 0x81, 0x5B, 0x16, 0xF8, 0x17, 0x98]"

definition swap_hash :: bytes where
  "swap_hash =
     [0xE3, 0xB0, 0xC4, 0x42, 0x98, 0xFC, 0x1C, 0x14, 0x9A, 0xFB, 0xF4,
      0xC8, 0x99, 0x6F, 0xB9, 0x24, 0x27, 0xAE, 0x41, 0xE4, 0x64, 0x9B,
      0x93, 0x4C, 0xA4, 0x95, 0x99, 0x1B, 0x78, 0x52, 0xB8, 0x55]"

definition swap_details :: htlc_details where
  "swap_details =
     \<lparr>hd_secret_hash = Some (hex_of_bytes swap_hash),
      hd_receiver_pubkey = Some (hex_of_bytes receiver_key),
      hd_timelock = Some 500000\<rparr>"

definition etch_output :: script_info where
  "etch_output =
     \<lparr>spk_type = ''nulldata'',
      spk_asm = ''OP_RETURN OP_13 45ecc3ed85dd0402c2a443e807410a46e807''\<rparr>"

definition balance_output :: script_info where
  "balance_output =
     \<lparr>spk_type = ''nulldata'', spk_asm = ''OP_RETURN OP_13 54c0a233116401''\<rparr>"

definition wallet_node :: env where
  "wallet_node =
     \<lparr>unicode = latin1_only,
      py_int = decimal,
      py_str = decimal_str,
      str_split = (\<lambda>s. split_spaces s []),
      fromhex = hex_pairs,
      sha256 = (\<lambda>b. b),
      listunspent = Inr [\<lparr>utxo_txid = replicate 32 0xAB, utxo_vout = 0, utxo_amount = 1 / 2,
                          utxo_address = ''tb1qw508d6qejxtdg4y5r3zarvary0c5xw7kxpjzsx''\<rparr>],
      getblockcount = Inr 840100,
      getblockhash = (\<lambda>h. Inr ''0000000000000000000320283a032748cef8227873ff4872689bf23f1cda83a5''),
      getblock = (\<lambda>h. Inr (replicate 18 \<lparr>raw_vout = [etch_output]\<rparr>)),
      getrawtransaction = (\<lambda>t. Inr \<lparr>vin = [], vout = [\<lparr>nValue = 10000, scriptPubKey = [0x6A]\<rparr>]\<rparr>),
      getrawtransaction_verbose = (\<lambda>t. Inr \<lparr>raw_vout = [balance_output]\<rparr>),
      gettxout = (\<lambda>t v. Inr ()),
      getnewaddress = Inr ''tb1qrp33g0q5c5txsp9arysrx4k6zdkfs4nce4xj0gdcccefvpysxf3q0sl5k7'',
      getaddressinfo_pubkey = (\<lambda>a. Inr (hex_of_bytes sender_key)),
      CCoinAddress = (\<lambda>a. Inr (ascii a)),
      P2TR_from_scriptPubKey = (\<lambda>s. Inr s),
      PublicKey_from_hex = hex_pairs,
      serialize_len = (\<lambda>t. 100),
      sign_and_send = (\<lambda>t. Inr ''txid'')\<rparr>"

text \<open>A glyph whose cap is set to zero, and one whose end offset is set to zero.\<close>

definition glyph_cap_zero :: glyph_info where
  "glyph_cap_zero =
     \<lparr>gi_etch_height = Some 100, gi_minted_count = Some 0, gi_divisibility = Some 2,
      gi_mint_cap = Some 0, gi_mint_amount = None, gi_start_height = None,
      gi_end_height = None, gi_start_offset = None, gi_end_offset = None\<rparr>"

definition glyph_end_offset_zero :: glyph_info where
  "glyph_end_offset_zero =
     \<lparr>gi_etch_height = Some 100, gi_minted_count = Some 0, gi_divisibility = Some 2,
      gi_mint_cap = None, gi_mint_amount = None, gi_start_height = None,
      gi_end_height = None, gi_start_offset = None, gi_end_offset = Some 0\<rparr>"

text \<open>
  An output that is no glyphstone, the id of a transaction and an address.
\<close>

definition malformed_output :: txout where
  "malformed_output = \<lparr>nValue = 5, scriptPubKey = [OP_DUP, OP_DROP]\<rparr>"

definition glyph_txid :: string where
  "glyph_txid = ''4a5e1e4baab89f3a32518a88c31bc87f618f76673e2cc77ab2127b7afdeda33b''"

definition receiver_address :: string where
  "receiver_address = ''tb1qw508d6qejxtdg4y5r3zarvary0c5xw7kxpjzsx''"


section \<open>Varint codec: lemmas\<close>

lemma byte_127_mask: "(127::byte) = mask 7"
  by (simp add: mask_eq_exp_minus_1)

lemma int_127_mask: "(127::int) = mask 7"
  by (simp add: mask_eq_exp_minus_1)

lemma uint_and_127: "uint ((word_of_int k :: byte) AND 0x7F) = k mod 128"
proof -
  have "uint ((word_of_int k :: byte) AND mask 7) = take_bit 7 k"
    by (simp add: unsigned_take_bit_eq uint_word_of_int_eq flip: take_bit_eq_mask)
  then show ?thesis by (simp add: byte_127_mask take_bit_eq_mod)
qed

lemma or_128_mod: "(((i::int) AND 0x7F) OR 0x80) mod 128 = i mod 128"
proof -
  have "take_bit 7 ((i AND mask 7) OR 128) = take_bit 7 i"
    by (simp flip: take_bit_eq_mask)
  then show ?thesis by (simp add: int_127_mask take_bit_eq_mod)
qed

lemma byte_and_128: "((word_of_int k :: byte) AND 0x80 = 0) \<longleftrightarrow> \<not> bit k 7"
proof -
  have "((word_of_int k :: byte) AND 2 ^ 7 = 0) \<longleftrightarrow> \<not> bit (word_of_int k :: byte) 7"
    by (rule and_exp_eq_0_iff_not_bit)
  then show ?thesis by (simp add: bit_word_of_int_iff)
qed

lemma bit7_or_128: "bit (((i::int) AND 0x7F) OR 0x80) 7"
proof -
  have "(128::int) = push_bit 7 1" by simp
  show ?thesis
    apply (subst \<open>(128::int) = push_bit 7 1\<close>)
    apply (simp add: bit_simps)
    done
qed

lemma bit7_small: "0 \<le> (i::int) \<Longrightarrow> i \<le> 127 \<Longrightarrow> \<not> bit i 7"
  by (simp add: bit_iff_odd)

lemma cont_byte_low7:
  "uint ((word_of_int (((i::int) AND 0x7F) OR 0x80) :: byte) AND 0x7F) = i mod 128"
  by (simp only: uint_and_127 or_128_mod)

lemma cont_byte_high: "(word_of_int (((i::int) AND 0x7F) OR 0x80) :: byte) AND 0x80 \<noteq> 0"
  using bit7_or_128 [of i] by (simp only: byte_and_128) simp

lemma last_byte_low7:
  "0 \<le> (i::int) \<Longrightarrow> i \<le> 127 \<Longrightarrow> uint ((word_of_int i :: byte) AND 0x7F) = i"
  by (simp only: uint_and_127) simp

lemma last_byte_high: "0 \<le> (i::int) \<Longrightarrow> i \<le> 127 \<Longrightarrow> (word_of_int i :: byte) AND 0x80 = 0"
  using bit7_small [of i] by (simp only: byte_and_128) simp

text \<open>Below \<open>2 ^ s\<close> nothing overlaps a value shifted by \<open>s\<close>: the \<^verbatim>\<open>|=\<close> is an addition.\<close>

lemma or_push_bit_add:
  fixes d x :: int
  assumes "0 \<le> d" "d < 2 ^ s"
  shows "d OR push_bit s x = d + x * 2 ^ s"
proof -
  have "take_bit s d = d" using assms by (simp add: take_bit_int_eq_self)
  then have "\<And>n. \<not> bit d n \<or> \<not> bit (push_bit s x) n"
    by (metis bit_push_bit_iff bit_take_bit_iff not_le)
  then have "d + push_bit s x = d OR push_bit s x"
    by (rule disjunctive_add)
  then show ?thesis by (simp add: push_bit_eq_mult)
qed

lemma encode_varint_loop_acc:
  "encode_varint_loop i acc = acc @ encode_varint_loop i []"
proof (induction "nat i" arbitrary: i acc rule: less_induct)
  case less
  show ?case
  proof (cases "i > 127")
    case True
    let ?b = "word_of_int ((i AND 0x7F) OR 0x80) :: byte"
    have smaller: "nat (drop_bit 7 i) < nat i"
      using True by (simp add: drop_bit_eq_div)
    have "encode_varint_loop i acc = encode_varint_loop (drop_bit 7 i) (acc @ [?b])"
      using True by (subst encode_varint_loop.simps) simp
    also have "\<dots> = (acc @ [?b]) @ encode_varint_loop (drop_bit 7 i) []"
      by (rule less [OF smaller])
    also have "\<dots> = acc @ encode_varint_loop (drop_bit 7 i) [?b]"
      using less [OF smaller, of "[?b]"] by simp
    also have "encode_varint_loop (drop_bit 7 i) [?b] = encode_varint_loop i []"
      using True by (subst (2) encode_varint_loop.simps) simp
    finally show ?thesis .
  next
    case False
    then show ?thesis by (simp add: encode_varint_loop.simps)
  qed
qed

lemma encode_varint_loop_step:
  "i > 127 \<Longrightarrow> encode_varint_loop i [] =
     word_of_int ((i AND 0x7F) OR 0x80) # encode_varint_loop (drop_bit 7 i) []"
  by (subst encode_varint_loop.simps, subst encode_varint_loop_acc) simp

lemma encode_varint_loop_last:
  "\<not> i > 127 \<Longrightarrow> encode_varint_loop i [] = [word_of_int i]"
  by (subst encode_varint_loop.simps) simp

lemma base128_split:
  "(m::int) * 2 ^ s + q * 2 ^ (s + 7) = (m + 128 * q) * 2 ^ s"
  by (simp add: power_add algebra_simps)

lemma decode_encode_loop:
  assumes "0 \<le> i" "0 \<le> d" "d < 2 ^ s"
  shows "decode_varint_loop (encode_varint_loop i [] @ rest) d s = d + i * 2 ^ s"
  using assms
proof (induction "nat i" arbitrary: i d s rule: less_induct)
  case less
  show ?case
  proof (cases "i > 127")
    case True
    let ?d = "d + (i mod 128) * 2 ^ s"
    have smaller: "nat (drop_bit 7 i) < nat i"
      using True by (simp add: drop_bit_eq_div)
    have d0: "0 \<le> ?d" using less.prems by simp
    have "(i mod 128) * 2 ^ s \<le> 127 * 2 ^ s"
      by (rule mult_right_mono) simp_all
    then have "?d < 2 ^ s + 127 * 2 ^ s"
      using less.prems by linarith
    then have d1: "?d < 2 ^ (s + 7)"
      by (simp add: power_add)
    have q0: "0 \<le> drop_bit 7 i" using less.prems by (simp add: drop_bit_eq_div)
    have "decode_varint_loop (encode_varint_loop i [] @ rest) d s
        = decode_varint_loop (encode_varint_loop (drop_bit 7 i) [] @ rest) ?d (s + 7)"
      using True less.prems
      by (simp add: encode_varint_loop_step cont_byte_low7 cont_byte_high or_push_bit_add Let_def)
    also have "\<dots> = ?d + drop_bit 7 i * 2 ^ (s + 7)"
      by (rule less.hyps [OF smaller q0 d0 d1])
    also have "\<dots> = d + i * 2 ^ s"
    proof -
      have q: "drop_bit 7 i = i div 128" by (simp add: drop_bit_eq_div)
      have A: "(i mod 128) * 2 ^ s + (i div 128) * 2 ^ (s + 7)
             = (i mod 128 + 128 * (i div 128)) * 2 ^ s"
        by (rule base128_split)
      have B: "i mod 128 + 128 * (i div 128) = i" by simp
      have C: "(i mod 128) * 2 ^ s + (i div 128) * 2 ^ (s + 7) = i * 2 ^ s"
        using A by (simp only: B)
      show ?thesis unfolding q using C by linarith
    qed
    finally show ?thesis .
  next
    case False
    then show ?thesis using less.prems
      by (simp add: encode_varint_loop_last last_byte_low7 last_byte_high or_push_bit_add Let_def)
  qed
qed


lemma decode_varint_loop_sum:
  assumes "0 \<le> d" "d < 2 ^ s"
  shows "decode_varint_loop bs d s
       = d + (\<Sum>k<length (varint_head bs). uint (varint_head bs ! k AND 0x7F) * 2 ^ (s + 7 * k))"
  using assms
proof (induction bs arbitrary: d s)
  case Nil
  then show ?case by simp
next
  case (Cons b bs)
  let ?x = "uint (b AND 0x7F)"
  let ?d = "d + ?x * 2 ^ s"
  have x0: "0 \<le> ?x" by simp
  have "b AND 0x7F \<le> 0x7F" by (rule word_and_le1)
  then have x1: "?x \<le> 127" by (simp add: word_le_def)
  have d0: "0 \<le> ?d" using Cons.prems by simp
  have "?x * 2 ^ s \<le> 127 * 2 ^ s"
    using x1 by (rule mult_right_mono) simp
  then have "?d < 2 ^ s + 127 * 2 ^ s"
    using Cons.prems by linarith
  then have d1: "?d < 2 ^ (s + 7)"
    by (simp add: power_add)
  show ?case
  proof (cases "b AND 0x80 = 0")
    case True
    then show ?thesis using Cons.prems by (simp add: or_push_bit_add Let_def)
  next
    case False
    have "decode_varint_loop (b # bs) d s = decode_varint_loop bs ?d (s + 7)"
      using False Cons.prems by (simp add: or_push_bit_add Let_def)
    also have "\<dots> = ?d + (\<Sum>k<length (varint_head bs). uint (varint_head bs ! k AND 0x7F) * 2 ^ (s + 7 + 7 * k))"
      by (rule Cons.IH [OF d0 d1])
    also have "\<dots> = d + (\<Sum>k<length (varint_head (b # bs)). uint (varint_head (b # bs) ! k AND 0x7F) * 2 ^ (s + 7 * k))"
    proof -
      have h: "varint_head (b # bs) = b # varint_head bs" using False by simp
      have "(\<Sum>k<Suc (length (varint_head bs)). uint ((b # varint_head bs) ! k AND 0x7F) * 2 ^ (s + 7 * k))
          = uint ((b # varint_head bs) ! 0 AND 0x7F) * 2 ^ (s + 7 * 0)
            + (\<Sum>k<length (varint_head bs). uint ((b # varint_head bs) ! Suc k AND 0x7F) * 2 ^ (s + 7 * Suc k))"
        by (rule sum.lessThan_Suc_shift)
      also have "\<dots> = ?x * 2 ^ s
            + (\<Sum>k<length (varint_head bs). uint (varint_head bs ! k AND 0x7F) * 2 ^ (s + 7 + 7 * k))"
        by (simp add: add.assoc)
      finally show ?thesis unfolding h by simp
    qed
    finally show ?thesis .
  qed
qed

lemma decode_encode_varint:
  "0 \<le> n \<Longrightarrow> decode_varint (encode_varint_loop n [] @ rest) = n"
  using decode_encode_loop [of n 0 0 rest] by (simp add: decode_varint_def)


lemma encode_varint_Inr:
  "encode_varint n = Inr bs \<Longrightarrow> 0 \<le> n \<and> bs = encode_varint_loop n []"
  by (auto simp: encode_varint_def split: if_splits)

section \<open>Varint codec: the claims\<close>

text \<open>
  C7, as stated, fails: \<^verbatim>\<open>decode_varint\<close> returns the integer alone, as its signature
  and its docstring say, and no pair of a value and a remaining tail. On the encoding of
  0 it returns the number 0, which is not the pair of 0 and the empty byte string, and
  taking its result apart into a value and a tail raises \<^verbatim>\<open>TypeError\<close>.
\<close>

theorem varint_tail_counterexample:
  "encode_varint 0 = Inr [0x00]
   \<and> PyInt (decode_varint [0x00]) = PyInt 0
   \<and> PyInt (decode_varint [0x00]) \<noteq> PyTuple [PyInt 0, PyBytes []]
   \<and> unpack2 (PyInt (decode_varint [0x00])) = Inl TypeError"
  by (simp add: encode_varint_def encode_varint_loop.simps decode_varint_def)

text \<open>
  C7, amended. For every integer \<open>n \<ge> 0\<close>, and so for every \<open>n\<close> in \<open>[0, 2^63)\<close>, the
  encoding succeeds and \<^verbatim>\<open>decode_varint\<close> of it is \<open>n\<close>. \<^verbatim>\<open>encode_varint\<close> maps 0 to \<open>00\<close>,
  127 to \<open>7F\<close>, 128 to \<open>80 01\<close> and 300 to \<open>AC 02\<close>.
\<close>

theorem varint_round_trip:
  assumes "0 \<le> n"
  shows "(case encode_varint n of
            Inl e \<Rightarrow> False
          | Inr bs \<Rightarrow> decode_varint bs = n)
         \<and> encode_varint 0 = Inr [0x00]
         \<and> encode_varint 127 = Inr [0x7F]
         \<and> encode_varint 128 = Inr [0x80, 0x01]
         \<and> encode_varint 300 = Inr [0xAC, 0x02]"
proof -
  have "decode_varint (encode_varint_loop n []) = n"
    using decode_encode_varint [OF assms, of "[]"] by simp
  moreover have "encode_varint 0 = Inr [0x00]"
    by (simp add: encode_varint_def encode_varint_loop.simps)
  moreover have "encode_varint 127 = Inr [0x7F]"
    by (simp add: encode_varint_def encode_varint_loop.simps)
  moreover have "encode_varint 128 = Inr [0x80, 0x01]"
    by (simp add: encode_varint_def encode_varint_loop.simps)
  moreover have "encode_varint 300 = Inr [0xAC, 0x02]"
    by (simp add: encode_varint_def encode_varint_loop.simps)
  ultimately show ?thesis using assms by (simp add: encode_varint_def)
qed

theorem varint_round_trip_witness:
  "(0::int) \<le> 300 \<and> encode_varint 300 = Inr [0xAC, 0x02]
   \<and> decode_varint [0xAC, 0x02] = 300"
  using varint_round_trip [of 300] by (simp add: encode_varint_def encode_varint_loop.simps)


text \<open>
  C2, as stated, fails: on the one byte \<open>80\<close>, a stream that ends with the continuation
  bit set, the specified decoder fails with \<open>Truncated\<close> and \<^verbatim>\<open>decode_varint\<close> returns 0;
  on ten bytes \<open>80\<close> followed by \<open>01\<close> the specified decoder fails with \<open>Overflow\<close> and
  \<^verbatim>\<open>decode_varint\<close> returns \<open>2 ^ 70\<close>.
\<close>

theorem decode_varint_failure_counterexample:
  "decode_spec [0x80] = Inl Truncated
   \<and> decode_varint [0x80] = 0
   \<and> decode_spec [0x80, 0x80, 0x80, 0x80, 0x80, 0x80, 0x80, 0x80, 0x80, 0x80, 0x01] = Inl Overflow
   \<and> decode_varint [0x80, 0x80, 0x80, 0x80, 0x80, 0x80, 0x80, 0x80, 0x80, 0x80, 0x01] = 2 ^ 70"
  by (simp add: decode_spec_def decode_varint_def)

text \<open>
  C2, amended. \<^verbatim>\<open>decode_varint\<close> returns a value on every byte stream and raises
  nothing: the value is the little-endian base-128 number made of the low seven bits
  of the bytes up to and including the first one whose continuation bit is clear, and
  of all the bytes when there is no such byte. A stream that ends with the continuation
  bit set yields what was accumulated (0 for the empty stream), and no bound on the
  shift is enforced.
\<close>

theorem decode_varint_value:
  "decode_varint bs
     = (\<Sum>k<length (varint_head bs). uint (varint_head bs ! k AND 0x7F) * 2 ^ (7 * k))"
  using decode_varint_loop_sum [of 0 0 bs] by (simp add: decode_varint_def)

section \<open>Symbol codec: lemmas\<close>

lemma alphabet_nth:
  assumes "r < 26"
  shows "alphabet ! r = 65 + r"
proof -
  have eq: "alphabet = map (\<lambda>i. 65 + i) [0..<26]"
    by (simp add: alphabet_def codepoints_def upt_rec)
  have "map (\<lambda>i. 65 + i) [0..<26] ! r = 65 + r"
    using assms by simp
  then show ?thesis by (simp only: eq)
qed

lemma letter_upper: "65 \<le> c \<Longrightarrow> c \<le> 90 \<Longrightarrow> isalpha db c \<and> isupper db c"
  by (simp add: isalpha_def isupper_def)

lemma int_to_symbol_loop_acc:
  "int_to_symbol_loop n acc = int_to_symbol_loop n [] @ acc"
proof (induction "nat n" arbitrary: n acc rule: less_induct)
  case less
  show ?case
  proof (cases "n > 0")
    case True
    let ?q = "(n - BASE_OFFSET) div 26"
    let ?c = "alphabet ! nat ((n - BASE_OFFSET) mod 26)"
    have smaller: "nat ?q < nat n" using True by (simp add: BASE_OFFSET_def)
    have "int_to_symbol_loop n acc = int_to_symbol_loop ?q (?c # acc)"
      using True by (subst int_to_symbol_loop.simps) simp
    also have "\<dots> = int_to_symbol_loop ?q [] @ (?c # acc)"
      by (rule less [OF smaller])
    also have "\<dots> = (int_to_symbol_loop ?q [] @ [?c]) @ acc" by simp
    also have "int_to_symbol_loop ?q [] @ [?c] = int_to_symbol_loop ?q [?c]"
      by (rule less [OF smaller, symmetric])
    also have "int_to_symbol_loop ?q [?c] = int_to_symbol_loop n []"
      using True by (subst (2) int_to_symbol_loop.simps) simp
    finally show ?thesis .
  next
    case False
    then show ?thesis by (simp add: int_to_symbol_loop.simps)
  qed
qed

lemma int_to_symbol_loop_step:
  assumes "n > 0"
  shows "int_to_symbol_loop n [] =
           int_to_symbol_loop ((n - 1) div 26) [] @ [65 + nat ((n - 1) mod 26)]"
proof -
  have "nat ((n - 1) mod 26) < 26" by simp
  then have "alphabet ! nat ((n - 1) mod 26) = 65 + nat ((n - 1) mod 26)"
    by (rule alphabet_nth)
  moreover have "int_to_symbol_loop n [] =
      int_to_symbol_loop ((n - 1) div 26) [alphabet ! nat ((n - 1) mod 26)]"
    using assms by (subst int_to_symbol_loop.simps) (simp add: BASE_OFFSET_def)
  ultimately show ?thesis
    by (simp add: int_to_symbol_loop_acc [of _ "[_]"])
qed

lemma int_to_symbol_loop_zero: "n \<le> 0 \<Longrightarrow> int_to_symbol_loop n [] = []"
  by (simp add: int_to_symbol_loop.simps)

lemma symbol_letters:
  "c \<in> set (int_to_symbol_loop n []) \<Longrightarrow> 65 \<le> c \<and> c \<le> 90"
proof (induction "nat n" arbitrary: n rule: less_induct)
  case less
  show ?case
  proof (cases "n > 0")
    case True
    have smaller: "nat ((n - 1) div 26) < nat n" using True by simp
    have "nat ((n - 1) mod 26) < 26" by simp
    then show ?thesis
      using less.prems less.hyps [OF smaller] True
      by (auto simp: int_to_symbol_loop_step)
  next
    case False
    then show ?thesis using less.prems by (simp add: int_to_symbol_loop_zero)
  qed
qed

lemma symbol_length_bound:
  "0 \<le> n \<Longrightarrow> 26 ^ length (int_to_symbol_loop n []) \<le> 25 * n + 1"
proof (induction "nat n" arbitrary: n rule: less_induct)
  case less
  show ?case
  proof (cases "n > 0")
    case True
    let ?q = "(n - 1) div 26"
    have smaller: "nat ?q < nat n" using True by simp
    have q0: "0 \<le> ?q" using True by simp
    have ih: "26 ^ length (int_to_symbol_loop ?q []) \<le> 25 * ?q + 1"
      by (rule less.hyps [OF smaller q0])
    have "26 * ?q \<le> n - 1" by simp
    then have "26 * (25 * ?q + 1) \<le> 25 * n + 1" by (simp add: algebra_simps)
    moreover have "(26::int) ^ length (int_to_symbol_loop n [])
        = 26 * 26 ^ length (int_to_symbol_loop ?q [])"
      using True by (simp add: int_to_symbol_loop_step)
    ultimately show ?thesis using ih by linarith
  next
    case False
    then show ?thesis using less.prems by (simp add: int_to_symbol_loop_zero)
  qed
qed

lemma symbol_length_26:
  assumes "0 \<le> n" "n \<le> 26 ^ 26"
  shows "length (int_to_symbol_loop n []) \<le> 26"
proof (rule ccontr)
  assume "\<not> ?thesis"
  then have "27 \<le> length (int_to_symbol_loop n [])" by simp
  then have "(26::int) ^ 27 \<le> 26 ^ length (int_to_symbol_loop n [])"
    by (rule power_increasing) simp
  also have "\<dots> \<le> 25 * n + 1" by (rule symbol_length_bound [OF assms(1)])
  also have "\<dots> \<le> 25 * 26 ^ 26 + 1" using assms(2) by simp
  finally show False by simp
qed

lemma symbol_nonempty: "0 < n \<Longrightarrow> int_to_symbol_loop n [] \<noteq> []"
  by (simp add: int_to_symbol_loop_step)

lemma valid_name_loop_letters:
  assumes "\<forall>c \<in> set xs. 65 \<le> c \<and> c \<le> 90"
  shows "valid_name_loop db name (enumerate k xs) cnt
       = (0 < cnt + length xs \<and> cnt + length xs \<le> MAX_GLYPH_NAME_LENGTH)"
  using assms
proof (induction xs arbitrary: k cnt)
  case Nil
  then show ?case by simp
next
  case (Cons x xs)
  have "isalpha db x \<and> isupper db x" using Cons.prems by (simp add: letter_upper)
  then show ?case using Cons by simp
qed

lemma foldl_base26:
  "foldl (\<lambda>value (i, c). value + (int c - ord_A + BASE_OFFSET) * 26 ^ i) a (enumerate k xs)
     = a + 26 ^ k * base26_value xs"
  by (induction xs arbitrary: a k) (simp_all add: algebra_simps)

lemma base26_value_symbol:
  "0 \<le> n \<Longrightarrow> base26_value (rev (int_to_symbol_loop n [])) = n"
proof (induction "nat n" arbitrary: n rule: less_induct)
  case less
  show ?case
  proof (cases "n > 0")
    case True
    let ?q = "(n - 1) div 26"
    have smaller: "nat ?q < nat n" using True by simp
    have q0: "0 \<le> ?q" using True by simp
    have ih: "base26_value (rev (int_to_symbol_loop ?q [])) = ?q"
      by (rule less.hyps [OF smaller q0])
    have "base26_value (rev (int_to_symbol_loop n [])) = (n - 1) mod 26 + 1 + 26 * ?q"
      using True ih by (simp add: int_to_symbol_loop_step ord_A_def BASE_OFFSET_def)
    also have "\<dots> = n" by simp
    finally show ?thesis .
  next
    case False
    then show ?thesis using less.prems by (simp add: int_to_symbol_loop_zero)
  qed
qed

lemma spacer_not_letter: "65 \<le> c \<and> c \<le> 90 \<Longrightarrow> c \<noteq> spacer"
  by (simp add: spacer_def)

lemma symbol_valid:
  assumes "1 \<le> n" "n \<le> 26 ^ 26"
  shows "is_valid_glyph_name db (int_to_symbol_loop n [])"
proof -
  let ?s = "int_to_symbol_loop n []"
  have ne: "?s \<noteq> []" using assms(1) by (simp add: symbol_nonempty)
  have len: "length ?s \<le> 26" using assms by (simp add: symbol_length_26)
  have "valid_name_loop db ?s (enumerate 0 ?s) 0
      = (0 < 0 + length ?s \<and> 0 + length ?s \<le> MAX_GLYPH_NAME_LENGTH)"
    by (rule valid_name_loop_letters) (simp add: symbol_letters)
  then show ?thesis using ne len
    by (simp add: is_valid_glyph_name_def MAX_GLYPH_NAME_LENGTH_def)
qed

lemma symbol_to_int_symbol:
  assumes "1 \<le> n" "n \<le> 26 ^ 26"
  shows "symbol_to_int db (int_to_symbol_loop n []) = Inr n"
proof -
  let ?s = "int_to_symbol_loop n []"
  have "filter (\<lambda>c. c \<noteq> spacer) ?s = ?s"
    by (auto simp: filter_id_conv spacer_def dest!: symbol_letters)
  moreover have "base26_value (rev ?s) = n"
    using assms(1) by (simp add: base26_value_symbol)
  ultimately show ?thesis
    using symbol_valid [OF assms, of db] by (simp add: symbol_to_int_def foldl_base26)
qed

section \<open>Symbol codec and name validation: the claims\<close>

text \<open>
  C6, as stated, fails in its last value: \<^verbatim>\<open>symbol_to_int("TESTCOIN")\<close> is 162415731180,
  not 3299942111 (which is the value of the name JQSFSDK).
\<close>

theorem symbol_testcoin_counterexample:
  "symbol_to_int latin1_only (codepoints ''TESTCOIN'') \<noteq> Inr 3299942111"
  by (simp add: symbol_to_int_def is_valid_glyph_name_def codepoints_def isalpha_def
      isupper_def MAX_GLYPH_NAME_LENGTH_def spacer_def ord_A_def BASE_OFFSET_def
      enumerate_eq_zip upt_rec)

text \<open>
  C6, amended. For every integer \<open>n\<close> with \<open>1 \<le> n \<le> 26^26\<close>, \<^verbatim>\<open>int_to_symbol(n)\<close> is a
  valid glyph name without spacers and \<^verbatim>\<open>symbol_to_int\<close> maps it back to \<open>n\<close>;
  \<^verbatim>\<open>symbol_to_int\<close> maps A to 1, Z to 26, AA to 27, and both TEST\<bullet>COIN and TESTCOIN to
  162415731180.
\<close>

theorem symbol_round_trip:
  assumes "1 \<le> n" "n \<le> 26 ^ 26"
  shows "(case int_to_symbol n of
            Inl e \<Rightarrow> False
          | Inr s \<Rightarrow> is_valid_glyph_name db s \<and> spacer \<notin> set s \<and> symbol_to_int db s = Inr n)
         \<and> symbol_to_int db (codepoints ''A'') = Inr 1
         \<and> symbol_to_int db (codepoints ''Z'') = Inr 26
         \<and> symbol_to_int db (codepoints ''AA'') = Inr 27
         \<and> symbol_to_int db (codepoints ''TEST'' @ [spacer] @ codepoints ''COIN'')
             = Inr 162415731180
         \<and> symbol_to_int db (codepoints ''TESTCOIN'') = Inr 162415731180"
proof -
  note ev = symbol_to_int_def is_valid_glyph_name_def codepoints_def isalpha_def
      isupper_def MAX_GLYPH_NAME_LENGTH_def spacer_def ord_A_def BASE_OFFSET_def
      enumerate_eq_zip upt_rec
  have "int_to_symbol n = Inr (int_to_symbol_loop n [])"
    using assms(1) by (simp add: int_to_symbol_def BASE_OFFSET_def)
  moreover have "is_valid_glyph_name db (int_to_symbol_loop n [])"
    by (rule symbol_valid [OF assms])
  moreover have "spacer \<notin> set (int_to_symbol_loop n [])"
    by (auto simp: spacer_def dest!: symbol_letters)
  moreover have "symbol_to_int db (int_to_symbol_loop n []) = Inr n"
    by (rule symbol_to_int_symbol [OF assms])
  moreover have "symbol_to_int db (codepoints ''A'') = Inr 1" by (simp add: ev)
  moreover have "symbol_to_int db (codepoints ''Z'') = Inr 26" by (simp add: ev)
  moreover have "symbol_to_int db (codepoints ''AA'') = Inr 27" by (simp add: ev)
  moreover have "symbol_to_int db (codepoints ''TEST'' @ [spacer] @ codepoints ''COIN'')
      = Inr 162415731180" by (simp add: ev)
  moreover have "symbol_to_int db (codepoints ''TESTCOIN'') = Inr 162415731180"
    by (simp add: ev)
  ultimately show ?thesis by simp
qed

theorem symbol_round_trip_witness:
  "(1::int) \<le> 27 \<and> (27::int) \<le> 26 ^ 26
   \<and> int_to_symbol 27 = Inr (codepoints ''AA'')
   \<and> is_valid_glyph_name latin1_only (codepoints ''AA'')
   \<and> spacer \<notin> set (codepoints ''AA'')
   \<and> symbol_to_int latin1_only (codepoints ''AA'') = Inr 27"
proof -
  have s: "int_to_symbol 27 = Inr (codepoints ''AA'')"
    by (simp add: int_to_symbol_def BASE_OFFSET_def int_to_symbol_loop_step
        int_to_symbol_loop_zero codepoints_def)
  show ?thesis
    using symbol_round_trip [of 27 latin1_only] by (simp add: s)
qed

text \<open>
  C8. The name made of the one character U+00C9 (E with acute accent) is not made of
  letters A-Z, yet \<^verbatim>\<open>is_valid_glyph_name\<close> accepts it, since \<^verbatim>\<open>isalpha\<close> and \<^verbatim>\<open>isupper\<close>
  hold of it; \<^verbatim>\<open>symbol_to_int\<close> then gives it the digit value 137.
\<close>

theorem valid_name_accepts_non_ascii:
  "is_valid_glyph_name db [0xC9] \<and> symbol_to_int db [0xC9] = Inr 137"
  by (simp add: symbol_to_int_def is_valid_glyph_name_def isalpha_def isupper_def
      MAX_GLYPH_NAME_LENGTH_def spacer_def ord_A_def BASE_OFFSET_def)

section \<open>The mint window\<close>

lemma start_zero_as_unset:
  "effective_start (zero_as_unset info)
     = (if truthy (gi_start_height info) then the (gi_start_height info)
        else if truthy (gi_start_offset info)
        then (case gi_etch_height info of None \<Rightarrow> 0 | Some h \<Rightarrow> h) + the (gi_start_offset info)
        else 0)"
  by (cases "gi_start_height info"; cases "gi_start_offset info")
     (simp_all add: effective_start_def zero_as_unset_def nonzero_def truthy_def)

lemma end_zero_as_unset:
  "effective_end (zero_as_unset info)
     = (if truthy (gi_end_height info) then gi_end_height info
        else if truthy (gi_end_offset info)
        then Some ((case gi_etch_height info of None \<Rightarrow> 0 | Some h \<Rightarrow> h) + the (gi_end_offset info))
        else None)"
  by (cases "gi_end_height info"; cases "gi_end_offset info")
     (simp_all add: effective_end_def zero_as_unset_def nonzero_def truthy_def)

lemma cap_zero_as_unset:
  "gi_mint_cap (zero_as_unset info) = nonzero (gi_mint_cap info)
   \<and> gi_minted_count (zero_as_unset info) = gi_minted_count info"
  by (simp add: zero_as_unset_def)

text \<open>
  C4, as stated, fails where a term is set to zero. With a cap of 0 and no mint made,
  and with an end offset of 0 at etch height 100, the predicate of the specification
  is false at height 150 (no mint is below a cap of 0; 150 is not below 100), and
  \<^verbatim>\<open>is_mint_open\<close> returns true.
\<close>

theorem is_mint_open_zero_counterexample:
  "is_mint_open glyph_cap_zero 150 = Inr True
   \<and> mint_open_spec glyph_cap_zero 150 = False
   \<and> is_mint_open glyph_end_offset_zero 150 = Inr True
   \<and> mint_open_spec glyph_end_offset_zero 150 = False"
  by (simp add: is_mint_open_def mint_open_spec_def glyph_cap_zero_def
      glyph_end_offset_zero_def and_then_def truthy_def effective_start_def
      effective_end_def)

text \<open>
  C4, amended. A term of the record counts as set when it is present and not zero.
  With that reading \<^verbatim>\<open>is_mint_open(glyph_info, h)\<close> returns true iff
  \<open>effective_start \<le> h < effective_end\<close> and, when \<^verbatim>\<open>mint_cap\<close> is set,
  \<open>minted_count < mint_cap\<close>; the bounds come from \<^verbatim>\<open>start_height\<close> and \<^verbatim>\<open>end_height\<close>, else
  from the etch height (0 when absent) plus \<^verbatim>\<open>start_offset\<close> and \<^verbatim>\<open>end_offset\<close>, else
  they are 0 and infinity. When \<^verbatim>\<open>mint_cap\<close> is set and \<^verbatim>\<open>minted_count\<close> is absent the call
  raises.
\<close>

theorem is_mint_open_zero_as_unset:
  "is_mint_open info h =
     (if truthy (gi_mint_cap info) \<and> gi_minted_count info = None then Inl TypeError
      else Inr (mint_open_spec (zero_as_unset info) h))"
proof -
  have window: "mint_open_spec (zero_as_unset info) h
      = ((if truthy (gi_start_height info) then the (gi_start_height info)
          else if truthy (gi_start_offset info)
          then (case gi_etch_height info of None \<Rightarrow> 0 | Some h \<Rightarrow> h) + the (gi_start_offset info)
          else 0) \<le> h
         \<and> (case (if truthy (gi_end_height info) then gi_end_height info
                  else if truthy (gi_end_offset info)
                  then Some ((case gi_etch_height info of None \<Rightarrow> 0 | Some h \<Rightarrow> h) + the (gi_end_offset info))
                  else None) of None \<Rightarrow> True | Some e \<Rightarrow> h < e)
         \<and> (case nonzero (gi_mint_cap info) of
              None \<Rightarrow> True
            | Some cap \<Rightarrow> (case gi_minted_count info of None \<Rightarrow> False | Some m \<Rightarrow> m < cap)))"
    by (simp only: mint_open_spec_def start_zero_as_unset end_zero_as_unset cap_zero_as_unset)
  show ?thesis
  proof (cases "gi_mint_cap info")
    case None
    then show ?thesis
      by (simp only: window) (simp add: is_mint_open_def and_then_def truthy_def nonzero_def Let_def)
  next
    case (Some cap)
    show ?thesis
    proof (cases "cap = 0")
      case True
      with Some show ?thesis
        by (simp only: window) (simp add: is_mint_open_def and_then_def truthy_def nonzero_def Let_def)
    next
      case False
      show ?thesis
      proof (cases "gi_minted_count info")
        case None
        with Some False show ?thesis
          by (simp add: is_mint_open_def and_then_def truthy_def)
      next
        case (Some m)
        with \<open>gi_mint_cap info = Some cap\<close> False show ?thesis
          by (simp only: window) (simp add: is_mint_open_def and_then_def truthy_def nonzero_def Let_def not_le)
      qed
    qed
  qed
qed

section \<open>The cenotaph guard\<close>

lemma burn_output_eq: "burn_output = Inr \<lparr>nValue = 0, scriptPubKey = [OP_RETURN]\<rparr>"
  by (simp add: burn_output_def and_then_def)

lemma and_thenE:
  assumes "and_then r f = Inr y"
  obtains x where "r = Inr x" and "f x = Inr y"
  using assms by (cases r) (simp_all add: and_then_def)

lemma and_then_Inr_iff:
  "and_then r f = Inr y \<longleftrightarrow> (\<exists>x. r = Inr x \<and> f x = Inr y)"
  by (cases r) (simp_all add: and_then_def)

text \<open>
  The guard of \<^verbatim>\<open>pythonGlyphs.py\<close> returns nothing for a malformed glyphstone: the
  assignment to \<^verbatim>\<open>tx.vout\<close> raises.
\<close>

lemma guard_raises:
  assumes "is_cenotaph glyphstone_output"
  shows "and_then
           (if is_cenotaph glyphstone_output
            then and_then burn_output (\<lambda>burn. Inl AttributeError)
            else Inr tx1) f \<noteq> Inr y"
  using assms by (simp add: and_then_def burn_output_eq)

lemma construct_cenotaph_raises:
  assumes "is_cenotaph glyphstone_output"
  shows "construct_and_broadcast_transaction e glyphstone_output destination_output
           change_address fee_per_byte live input_txin \<noteq> Inr result"
proof
  assume "construct_and_broadcast_transaction e glyphstone_output destination_output
           change_address fee_per_byte live input_txin = Inr result"
  then show False
    unfolding construct_and_broadcast_transaction_def
    apply (erule_tac and_thenE)
    apply (clarsimp simp: Let_def split: prod.splits)
    apply (erule and_thenE)
    apply (simp add: guard_raises [OF assms])
    done
qed

text \<open>
  The guard of \<^verbatim>\<open>htlcSwaps.py\<close> returns nothing for any output: either \<^verbatim>\<open>is_cenotaph\<close>
  raises or the construction of the burn output does.
\<close>

lemma htlc_guard_raises:
  "and_then (and_then (htlc_is_cenotaph glyphstone_output) (\<lambda>malformed.
       if malformed then Inl NameError else Inr tx1)) f \<noteq> Inr y"
  by (simp add: and_then_def htlc_is_cenotaph_def Let_def)

lemma htlc_construct_raises:
  "htlc_construct_and_broadcast_transaction e glyphstone_output change_address
     fee_per_byte live input_txin \<noteq> Inr result"
proof
  assume "htlc_construct_and_broadcast_transaction e glyphstone_output change_address
     fee_per_byte live input_txin = Inr result"
  then show False
    unfolding htlc_construct_and_broadcast_transaction_def
    apply (erule_tac and_thenE)
    apply (clarsimp simp: Let_def split: prod.splits)
    apply (erule and_thenE)
    apply (simp add: htlc_guard_raises)
    done
qed

lemma malformed_output_cenotaph: "is_cenotaph malformed_output"
  by (simp add: is_cenotaph_def malformed_output_def OP_DUP_def OP_RETURN_def)

text \<open>
  C1 fails on the code. For the output of value 5 with the script \<^verbatim>\<open>OP_DUP OP_DROP\<close>,
  which \<^verbatim>\<open>is_cenotaph\<close> declares malformed, and a wallet that funds the transaction,
  \<^verbatim>\<open>_construct_and_broadcast_transaction\<close> of \<^verbatim>\<open>pythonGlyphs.py\<close> reaches the guard, builds
  the burn output and raises \<^verbatim>\<open>AttributeError\<close> where it assigns the new output list to the
  transaction, with and without a destination output; the method of \<^verbatim>\<open>htlcSwaps.py\<close>
  raises \<^verbatim>\<open>NameError\<close> in \<^verbatim>\<open>is_cenotaph\<close>. No transaction with the single burn output
  comes out of either.
\<close>

theorem cenotaph_guard_raises:
  "construct_and_broadcast_transaction wallet_node malformed_output None None 1 False None
     = Inl AttributeError
   \<and> construct_and_broadcast_transaction wallet_node malformed_output
       (Some \<lparr>nValue = 4200, scriptPubKey = ascii receiver_address\<rparr>) None 1 True None
     = Inl AttributeError
   \<and> htlc_construct_and_broadcast_transaction wallet_node malformed_output None 1 False None
     = Inl NameError"
  by (simp add: is_cenotaph_def malformed_output_def construct_and_broadcast_transaction_def
      htlc_construct_and_broadcast_transaction_def wallet_node_def select_utxo_def
      htlc_select_utxo_def rpc_error_as_ValueError_def htlc_is_cenotaph_def and_then_def
      burn_output_eq Let_def truthy_str_def OP_DUP_def OP_DROP_def OP_RETURN_def OP_13_def)

section \<open>The timelock of the mirror HTLC\<close>

lemma participate_in_swap_raises:
  "participate_in_swap e glyph_id amount counterparty_htlc_details destination_address
     \<noteq> Inr result"
  by (auto simp: participate_in_swap_def and_then_Inr_iff htlc_construct_raises
      split: option.splits)

lemma initiate_swap_raises:
  "initiate_swap e glyph_id amount destination_address counterparty_pubkey secret timelock
     \<noteq> Inr result"
  by (auto simp: initiate_swap_def and_then_Inr_iff htlc_construct_raises Let_def)

text \<open>
  C9 fails on the code. \<^verbatim>\<open>create_htlc_script\<close> does not use its argument \<^verbatim>\<open>timelock\<close>: for
  the two keys and the hash of the counterparty's details the script is the thirteen
  items of the source, none of them a timelock, whatever the timelock is. So the mirror
  HTLC that \<^verbatim>\<open>participate_in_swap\<close> builds from details with timelock 500000 commits to
  no timelock, and the outcome of the call is the same for every other timelock in the
  details.
\<close>

theorem mirror_htlc_without_timelock:
  "create_htlc_script receiver_key sender_key swap_hash 500000
     = Inr ([OP_DUP, OP_HASH160, 0x20] @ swap_hash
            @ [OP_EQUALVERIFY, OP_CHECKSIG, OP_IF, 0x21] @ receiver_key
            @ [OP_ELSE, OP_CHECKLOCKTIMEVERIFY, OP_DROP, 0x21] @ sender_key
            @ [OP_ENDIF, OP_CHECKSIG])
   \<and> create_htlc_script receiver_key sender_key swap_hash timelock
     = create_htlc_script receiver_key sender_key swap_hash 500000
   \<and> participate_in_swap wallet_node ''840000:17'' 10
       (swap_details\<lparr>hd_timelock := Some timelock\<rparr>) receiver_address
     = participate_in_swap wallet_node ''840000:17'' 10 swap_details receiver_address"
proof (intro conjI)
  show "create_htlc_script receiver_key sender_key swap_hash 500000
     = Inr ([OP_DUP, OP_HASH160, 0x20] @ swap_hash
            @ [OP_EQUALVERIFY, OP_CHECKSIG, OP_IF, 0x21] @ receiver_key
            @ [OP_ELSE, OP_CHECKLOCKTIMEVERIFY, OP_DROP, 0x21] @ sender_key
            @ [OP_ENDIF, OP_CHECKSIG])"
    by (simp add: create_htlc_script_def and_then_def encode_op_pushdata_def
        receiver_key_def sender_key_def swap_hash_def)
  show "create_htlc_script receiver_key sender_key swap_hash timelock
     = create_htlc_script receiver_key sender_key swap_hash 500000"
    by (simp add: create_htlc_script_def)
  show "participate_in_swap wallet_node ''840000:17'' 10
       (swap_details\<lparr>hd_timelock := Some timelock\<rparr>) receiver_address
     = participate_in_swap wallet_node ''840000:17'' 10 swap_details receiver_address"
    by (simp add: participate_in_swap_def create_htlc_script_def swap_details_def)
qed

section \<open>The etch payload\<close>

lemma append_field_tagged:
  "nonneg field \<Longrightarrow> append_field tag field data = Inr (data @ tagged tag field)"
  by (cases field)
     (simp_all add: append_field_def tagged_def nonneg_def nonzero_def truthy_def
        encode_varint_def and_then_def)

lemma params_order:
  assumes "utf8_encode symbol = Inr symbol_bytes" "0 \<le> premine"
    "nonneg mint_cap" "nonneg mint_amount" "nonneg start_height" "nonneg end_height"
    "nonneg start_offset" "nonneg end_offset"
  shows "add_optional_mint_params data symbol premine mint_cap mint_amount
           start_height end_height start_offset end_offset
         = Inr (data @ symbol_bytes @ (if premine = 0 then [] else encode_varint_loop premine [])
                @ tagged ''C'' mint_cap @ tagged ''A'' mint_amount @ tagged ''S'' start_height
                @ tagged ''H'' end_height @ tagged ''O'' start_offset @ tagged ''F'' end_offset)"
proof -
  have sym: "symbol = [] \<Longrightarrow> symbol_bytes = []" using assms(1) by simp
  show ?thesis
    using assms sym
    by (simp add: add_optional_mint_params_def append_field_tagged and_then_def encode_varint_def)
qed

lemma utf8_currency: "utf8_encode [0xA4] = Inr [0xC2, 0xA4]"
  by (simp add: utf8_char_def and_then_def)

lemma testcoin_int: "symbol_to_int db (codepoints ''TESTCOIN'') = Inr 162415731180"
  by (simp add: symbol_to_int_def is_valid_glyph_name_def codepoints_def isalpha_def
      isupper_def MAX_GLYPH_NAME_LENGTH_def spacer_def ord_A_def BASE_OFFSET_def
      enumerate_eq_zip upt_rec)

lemma etch_payload:
  "etch_glyphstone_data db (codepoints ''TESTCOIN'') 2 [0xA4] 0 (Some 1000) (Some 10) None None
     (Some 0) (Some 1000)
   = Inr (ascii ''E'' @ encode_varint_loop 162415731180 [] @ encode_varint_loop 2 []
          @ [0xC2, 0xA4] @ ascii ''C'' @ encode_varint_loop 1000 []
          @ ascii ''A'' @ encode_varint_loop 10 [] @ ascii ''F'' @ encode_varint_loop 1000 [])"
  by (simp add: etch_glyphstone_data_def testcoin_int and_then_def encode_varint_def
      params_order [OF utf8_currency] nonneg_def tagged_def nonzero_def)

lemma etch_payload_bytes:
  "etch_glyphstone_data db (codepoints ''TESTCOIN'') 2 [0xA4] 0 (Some 1000) (Some 10) None None
     (Some 0) (Some 1000)
   = Inr [0x45, 0xEC, 0xC3, 0xED, 0x85, 0xDD, 0x04, 0x02, 0xC2, 0xA4, 0x43, 0xE8, 0x07,
          0x41, 0x0A, 0x46, 0xE8, 0x07]"
  by (simp add: etch_payload ascii_def encode_varint_loop.simps)

text \<open>
  C3, as stated, fails on its example: the payload that \<^verbatim>\<open>etch_glyph\<close> builds for TESTCOIN
  is neither the stated one nor the stated one with the name integer 162415731180 in
  place of 3299942111. The name encodes to 162415731180, and \<^verbatim>\<open>start_offset = 0\<close> adds no
  \<open>O\<close> field.
\<close>

theorem etch_payload_counterexample:
  "etch_glyphstone_data latin1_only (codepoints ''TESTCOIN'') 2 [0xA4] 0 (Some 1000) (Some 10)
     None None (Some 0) (Some 1000)
   \<noteq> Inr (ascii ''E'' @ encode_varint_loop 3299942111 [] @ encode_varint_loop 2 []
          @ [0xC2, 0xA4] @ ascii ''C'' @ encode_varint_loop 1000 []
          @ ascii ''A'' @ encode_varint_loop 10 [] @ ascii ''O'' @ encode_varint_loop 0 []
          @ ascii ''F'' @ encode_varint_loop 1000 [])
   \<and> etch_glyphstone_data latin1_only (codepoints ''TESTCOIN'') 2 [0xA4] 0 (Some 1000) (Some 10)
       None None (Some 0) (Some 1000)
     \<noteq> Inr (ascii ''E'' @ encode_varint_loop 162415731180 [] @ encode_varint_loop 2 []
          @ [0xC2, 0xA4] @ ascii ''C'' @ encode_varint_loop 1000 []
          @ ascii ''A'' @ encode_varint_loop 10 [] @ ascii ''O'' @ encode_varint_loop 0 []
          @ ascii ''F'' @ encode_varint_loop 1000 [])"
  by (simp add: etch_payload_bytes ascii_def encode_varint_loop.simps)

text \<open>
  C3, amended. Etching TESTCOIN with divisibility 2, the symbol U+00A4, mint_cap 1000,
  mint_amount 10, start_offset 0 and end_offset 1000 produces the payload \<open>E\<close>,
  varint(162415731180), varint(2), the UTF-8 bytes of the symbol, \<open>C\<close> varint(1000),
  \<open>A\<close> varint(10), \<open>F\<close> varint(1000). In general, after the symbol and the premine
  (when not zero), every tagged field that is present and not zero is emitted, in the
  fixed order C, A, S, H, O, F; a field that is absent or zero adds nothing.
\<close>

theorem etch_payload_order:
  assumes "utf8_encode symbol = Inr symbol_bytes" "0 \<le> premine"
    "nonneg mint_cap" "nonneg mint_amount" "nonneg start_height" "nonneg end_height"
    "nonneg start_offset" "nonneg end_offset"
  shows "add_optional_mint_params data symbol premine mint_cap mint_amount
           start_height end_height start_offset end_offset
         = Inr (data @ symbol_bytes
                @ (if premine = 0 then [] else encode_varint_loop premine [])
                @ tagged ''C'' mint_cap @ tagged ''A'' mint_amount @ tagged ''S'' start_height
                @ tagged ''H'' end_height @ tagged ''O'' start_offset @ tagged ''F'' end_offset)
       \<and> etch_glyphstone_data db (codepoints ''TESTCOIN'') 2 [0xA4] 0 (Some 1000) (Some 10)
           None None (Some 0) (Some 1000)
         = Inr (ascii ''E'' @ encode_varint_loop 162415731180 [] @ encode_varint_loop 2 []
                @ [0xC2, 0xA4] @ ascii ''C'' @ encode_varint_loop 1000 []
                @ ascii ''A'' @ encode_varint_loop 10 [] @ ascii ''F'' @ encode_varint_loop 1000 [])"
  using params_order [OF assms] etch_payload by blast

theorem etch_payload_order_witness:
  "utf8_encode [0xA4] = Inr [0xC2, 0xA4] \<and> (0::int) \<le> 0
   \<and> nonneg (Some 1000) \<and> nonneg (Some 10) \<and> nonneg None \<and> nonneg (Some 0)
   \<and> add_optional_mint_params [0x45] [0xA4] 0 (Some 1000) (Some 10) None None (Some 0)
        (Some 1000)
     = Inr [0x45, 0xC2, 0xA4, 0x43, 0xE8, 0x07, 0x41, 0x0A, 0x46, 0xE8, 0x07]"
proof -
  have n: "nonneg (Some 1000)" "nonneg (Some 10)" "nonneg None" "nonneg (Some 0)"
    by (simp_all add: nonneg_def)
  have z: "(0::int) \<le> 0" by simp
  have "add_optional_mint_params [0x45] [0xA4] 0 (Some 1000) (Some 10) None None (Some 0)
        (Some 1000)
      = Inr ([0x45] @ [0xC2, 0xA4] @ (if (0::int) = 0 then [] else encode_varint_loop 0 [])
             @ tagged ''C'' (Some 1000) @ tagged ''A'' (Some 10) @ tagged ''S'' None
             @ tagged ''H'' None @ tagged ''O'' (Some 0) @ tagged ''F'' (Some 1000))"
    using etch_payload_order [OF utf8_currency z n(1) n(2) n(3) n(3) n(4) n(1)] by blast
  then have "add_optional_mint_params [0x45] [0xA4] 0 (Some 1000) (Some 10) None None (Some 0)
        (Some 1000)
      = Inr [0x45, 0xC2, 0xA4, 0x43, 0xE8, 0x07, 0x41, 0x0A, 0x46, 0xE8, 0x07]"
    by (simp add: tagged_def nonzero_def ascii_def encode_varint_loop.simps)
  then show ?thesis using n utf8_currency by simp
qed

section \<open>Output values\<close>

text \<open>
  Taking apart what \<^verbatim>\<open>decode_varint\<close> returns raises \<^verbatim>\<open>TypeError\<close> whatever was decoded, so
  the two decoders of glyphstone payloads, and the operations that read a glyph or a
  balance from the chain through them, return nothing.
\<close>

lemma unpack_decoded_raises: "unpack_decoded decoded = Inl TypeError"
  by (simp add: unpack_decoded_def and_then_def)

lemma rpc_error_as_ValueError_Inr:
  "rpc_error_as_ValueError r = Inr x \<longleftrightarrow> r = Inr x"
  by (cases r) (simp_all add: rpc_error_as_ValueError_def)

lemma decode_glyph_balance_raises: "decode_glyph_balance e glyphstone_data glyph_id \<noteq> Inr balance"
  by (simp add: decode_glyph_balance_def unpack_decoded_raises and_then_def split: list.splits)

lemma get_glyph_balance_raises: "get_glyph_balance e txid vout_index glyph_id \<noteq> Inr balance"
  by (auto simp: get_glyph_balance_def rpc_error_as_ValueError_Inr and_then_Inr_iff Let_def
      decode_glyph_balance_raises split: if_splits)

lemma transfer_glyph_raises:
  "transfer_glyph e glyph_id txid vout_index amount destination_address change_address
     fee_per_byte live nostr_pubkey \<noteq> Inr result"
  by (auto simp: transfer_glyph_def and_then_Inr_iff get_glyph_balance_raises)

lemma decode_glyphstone_raises: "decode_glyphstone glyphstone_data etch_height \<noteq> Inr info"
  by (simp add: decode_glyphstone_def unpack_decoded_raises and_then_def Let_def
      split: list.splits)

lemma get_glyph_info_raises: "get_glyph_info e glyph_id \<noteq> Inr info"
  by (auto simp: get_glyph_info_def and_then_Inr_iff decode_glyphstone_raises
      split: if_splits option.splits)

lemma mint_glyph_raises:
  "mint_glyph e glyph_id amount destination_address change_address fee_per_byte live
     nostr_pubkey \<noteq> Inr result"
  by (simp add: mint_glyph_def and_then_Inr_iff get_glyph_info_raises)

text \<open>
  The etch path does build its destination output: a transaction that the builder
  returns has the outputs it was given, and the one that \<^verbatim>\<open>etch_glyph\<close> gives it for a
  premine has the value \<open>premine * 10 ^ divisibility\<close>.
\<close>

lemma construct_outputs:
  assumes "construct_and_broadcast_transaction e glyphstone_output (Some destination_output)
            change_address fee_per_byte live input_txin = Inr (t, r)"
  shows "vout t = [glyphstone_output, destination_output]"
  using assms unfolding construct_and_broadcast_transaction_def
  by (auto simp: and_then_Inr_iff Let_def burn_output_eq
      split: prod.splits if_splits sum.splits)

lemma etch_value:
  assumes "etch_glyph e name divisibility symbol premine mint_cap mint_amount start_height
             end_height start_offset end_offset destination_address change_address
             fee_per_byte live nostr_pubkey = Inr (t, r)"
    and "0 < premine"
  shows "0 \<le> divisibility \<and> nValue (vout t ! 1) = premine * 10 ^ nat divisibility"
proof -
  from assms obtain glyphstone_output spk where
    dv: "0 \<le> divisibility"
    and c: "construct_and_broadcast_transaction e glyphstone_output
       (Some \<lparr>nValue = premine * 10 ^ nat divisibility, scriptPubKey = spk\<rparr>)
       change_address fee_per_byte live None = Inr (t, r)"
    unfolding etch_glyph_def etch_glyphstone_data_def create_glyph_output_def
    by (auto simp: and_then_Inr_iff Let_def split: prod.splits if_splits option.splits
        dest!: encode_varint_Inr)
  from construct_outputs [OF c] show ?thesis using dv by simp
qed

lemma etch_example:
  "(case etch_glyph wallet_node (codepoints ''TESTCOIN'') 2 [0xA4] 500 (Some 1000) (Some 10)
           None None (Some 0) (Some 1000) (Some receiver_address) None 1 False None of
      Inl err \<Rightarrow> None
    | Inr (t, r) \<Rightarrow> Some (map nValue (vout t)))
   = Some [0, 50000]"
  by (simp add: etch_glyph_def etch_glyphstone_data_def testcoin_int and_then_def
      encode_varint_def params_order [OF utf8_currency] nonneg_def
      create_glyphstone_output_def encode_op_pushdata_def create_glyph_output_def
      destination_scriptPubKey_def construct_and_broadcast_transaction_def wallet_node_def
      select_utxo_def rpc_error_as_ValueError_def is_cenotaph_def truthy_str_def Let_def
      receiver_address_def tagged_def nonzero_def ascii_def encode_varint_loop.simps
      OP_RETURN_def OP_13_def)

text \<open>
  C5 fails on the code. For the glyph 840000:17 and an unspent output that carries the
  transfer payload of 100 units of it, \<^verbatim>\<open>get_glyph_balance\<close> raises \<^verbatim>\<open>TypeError\<close>, and so
  does the transfer of 42 units: \<^verbatim>\<open>transfer_glyph\<close> builds no destination output, of the
  value \<open>42 * 10 ^ 2\<close> or of any other. \<^verbatim>\<open>mint_glyph\<close> of 10 units raises \<^verbatim>\<open>TypeError\<close> where
  it reads the glyph. Neither operation returns for any arguments or any answers of the
  node.
\<close>

theorem transfer_builds_no_output:
  "get_glyph_balance wallet_node glyph_txid 0 ''840000:17'' = Inl TypeError
   \<and> transfer_glyph wallet_node ''840000:17'' glyph_txid 0 42 receiver_address None 1 False None
     = Inl TypeError
   \<and> mint_glyph wallet_node ''840000:17'' 10 receiver_address None 1 False None
     = Inl TypeError
   \<and> transfer_glyph e glyph_id txid vout_index amount destination_address change_address
       fee_per_byte live nostr_pubkey \<noteq> Inr result
   \<and> mint_glyph e glyph_id amount destination_address change_address fee_per_byte live
       nostr_pubkey \<noteq> Inr result'"
proof -
  have node: "py_int wallet_node = decimal" "fromhex wallet_node = hex_pairs"
    "str_split wallet_node = (\<lambda>s. split_spaces s [])"
    "getblockhash wallet_node
       = (\<lambda>h. Inr ''0000000000000000000320283a032748cef8227873ff4872689bf23f1cda83a5'')"
    "getblock wallet_node = (\<lambda>h. Inr (replicate 18 \<lparr>raw_vout = [etch_output]\<rparr>))"
    "getrawtransaction_verbose wallet_node = (\<lambda>t. Inr \<lparr>raw_vout = [balance_output]\<rparr>)"
    "gettxout wallet_node = (\<lambda>t v. Inr ())"
    by (simp_all add: wallet_node_def)
  have parse: "parse_glyph_id wallet_node ''840000:17'' = Inr (840000, 17)"
    by (simp add: parse_glyph_id_def node decimal_def digit_val_def)
  have balance: "get_glyph_balance wallet_node glyph_txid 0 ''840000:17'' = Inl TypeError"
    by (simp add: get_glyph_balance_def node balance_output_def
        rpc_error_as_ValueError_def and_then_def py_index_def Let_def hex_val_def
        decode_glyph_balance_def unpack_decoded_raises)
  have info: "get_glyph_info wallet_node ''840000:17'' = Inl TypeError"
    by (simp add: get_glyph_info_def parse node etch_output_def and_then_def
        py_index_def Let_def hex_val_def decode_glyphstone_def unpack_decoded_raises)
  show ?thesis
    using transfer_glyph_raises [of e glyph_id txid vout_index amount destination_address
        change_address fee_per_byte live nostr_pubkey result]
      mint_glyph_raises [of e glyph_id amount destination_address change_address
        fee_per_byte live nostr_pubkey result']
    by (simp add: balance transfer_glyph_def mint_glyph_def parse info and_then_def)
qed

section \<open>The output index of a transfer\<close>







end
